theory Spec2Isabelle
  imports Complex_Main
begin

section \<open>EVI-Pro-Lite example scripts: credentials, dispatch and fleet-size correction\<close>

text \<open>
  A shallow embedding of the three driver scripts \<^verbatim>\<open>example_ny_ev_proj_mp.py\<close>,
  \<^verbatim>\<open>example_ny_ev_proj.py\<close> and \<^verbatim>\<open>ny_ev_proj.py\<close>. The charging model itself
  (\<^verbatim>\<open>temp_run\<close>) and the plotting routine (\<^verbatim>\<open>loadPlotting\<close>) are imported by the
  scripts from another package; \<^verbatim>\<open>temp_run\<close> is a parameter of the model and
  \<^verbatim>\<open>loadPlotting\<close> is recorded as an output artifact.
\<close>

subsection \<open>Exceptions and log records\<close>

text \<open>
  Every way a script leaves its normal path is a value: \<^verbatim>\<open>sys.exit()\<close> raises
  \<open>SystemExit\<close>, \<^verbatim>\<open>input()\<close> on a closed standard input raises \<open>EOFError\<close>, a missing
  column or scenario is a \<open>KeyError\<close>, a list read out of range an \<open>IndexError\<close>.
  \<open>DanglingReference\<close> is the read of a reference that the store does not hold, which
  no Python program can do, and \<open>Unsupported\<close> marks an input that the model does not
  cover (the parsing of strings and numbers into time stamps).
\<close>

datatype error =
    SystemExit
  | EOFError
  | KeyError string
  | KeyError_scenario nat
  | IndexError
  | ZeroDivisionError
  | TypeError
  | AttributeError
  | DanglingReference
  | Unsupported

datatype level = DEBUG | INFO | WARNING | CRITICAL

subsection \<open>Text: \<^verbatim>\<open>str.strip\<close> and iteration over the lines of a file\<close>

text \<open>
  Text is a list of code points below 256, one \<^typ>\<open>char\<close> each. \<^verbatim>\<open>str.strip()\<close> without
  argument removes the characters for which \<^verbatim>\<open>str.isspace\<close> holds from both ends; below
  256 these are TAB, LF, VT, FF, CR, the four separators FS, GS, RS, US, the space, NEL
  (0x85) and the no-break space (0xA0).
\<close>

definition isspace :: "char \<Rightarrow> bool" where
  "isspace c \<longleftrightarrow> c \<in> set [CHR 0x09, CHR 0x0A, CHR 0x0B, CHR 0x0C, CHR 0x0D,
                           CHR 0x1C, CHR 0x1D, CHR 0x1E, CHR 0x1F, CHR 0x20,
                           CHR 0x85, CHR 0xA0]"

definition strip :: "string \<Rightarrow> string" where
  "strip s = rev (dropWhile isspace (rev (dropWhile isspace s)))"

text \<open>
  \<^verbatim>\<open>for line in f\<close> on a file opened in text mode: the content is cut after every
  line feed, each line keeps its line feed, and a last line without one is still a line.
  The content is the text as \<^verbatim>\<open>f.read()\<close> returns it.
\<close>

fun file_lines :: "string \<Rightarrow> string list" where
  "file_lines [] = []"
| "file_lines (c # cs) =
     (if c = CHR 0x0A then [c] # file_lines cs
      else (case file_lines cs of [] \<Rightarrow> [[c]] | l # ls \<Rightarrow> (c # l) # ls))"

subsection \<open>Log records\<close>

text \<open>
  One constructor for each \<^verbatim>\<open>logging\<close> call that the model records; the arguments
  are the values interpolated into the message. The informational records about
  directories, input data and timing are left out.
\<close>

datatype message =
    Input_directory_does_not_exist
    \<comment> \<open>\<^verbatim>\<open>'Input directory does not exist: {}'.format(input_dir)\<close>\<close>
  | Invalid_API_key string
    \<comment> \<open>\<^verbatim>\<open>f'Invalid API key: {line.strip()}'\<close>\<close>
  | API_keys_found_in_file nat
    \<comment> \<open>\<^verbatim>\<open>f'{n_api_key} API keys found in file.'\<close>\<close>
  | No_valid_API_key_found_in_file
    \<comment> \<open>\<^verbatim>\<open>'No valid API key found in file. Please enter your API key below.'\<close>\<close>
  | Invalid_API_key_please_check
    \<comment> \<open>\<^verbatim>\<open>'Invalid API key. Please check your API key.'\<close>\<close>
  | API_key_not_found_in_file
    \<comment> \<open>\<^verbatim>\<open>'API key not found in file. Please enter your API key below.'\<close>\<close>
  | API_key_found_in_file
    \<comment> \<open>\<^verbatim>\<open>'API key found in file.'\<close>\<close>
  | API_key_is_not_valid_use_demo
    \<comment> \<open>\<^verbatim>\<open>'API key is not valid. Use the demo key instead.'\<close>\<close>
  | Fleet_size_too_small nat string real
    \<comment> \<open>\<^verbatim>\<open>f"Scenario {scenario}: Fleet size of {county} is too small: {row['fleet_size']}."\<close>\<close>
  | Set_fleet_size_and_scale real
    \<comment> \<open>\<^verbatim>\<open>f"Set fleet size to 10000 and scale the results by {scaling_factor[scenario]}."\<close>\<close>
  | Running_with_API_key string
    \<comment> \<open>\<^verbatim>\<open>f'Running with API key: {api_key}'\<close>\<close>
  | Finished_running_for_county string
    \<comment> \<open>\<^verbatim>\<open>f'Finished running for county: {county}'\<close>\<close>

type_synonym log = "(level \<times> message) list"

subsection \<open>Credentials of the multi-key script\<close>

text \<open>
  \<^verbatim>\<open>example_ny_ev_proj_mp.py\<close>, lines 107 to 112: the loop over the lines of the key
  file. A line is accepted when its stripped form is non-empty and 40 characters long,
  and the stripped form is appended to \<^verbatim>\<open>api_key_list\<close>; any other line is logged.
\<close>

fun read_api_keys :: "string list \<Rightarrow> string list \<Rightarrow> log \<Rightarrow> string list \<times> log" where
  "read_api_keys [] api_key_list lg = (api_key_list, lg)"
| "read_api_keys (line # rest) api_key_list lg =
     (if strip line \<noteq> [] \<and> length (strip line) = 40
      then read_api_keys rest (api_key_list @ [strip line]) lg
      else read_api_keys rest api_key_list (lg @ [(WARNING, Invalid_API_key (strip line))]))"

text \<open>
  \<^verbatim>\<open>input('Enter API key: ')\<close> followed by the length check of lines 118 to 125 and
  128 to 135. The standard input is \<open>Some\<close> of the line typed (without its line end) or
  \<open>None\<close> when it is closed.
\<close>

definition enter_api_key :: "string option \<Rightarrow> log \<Rightarrow> (error + string list) \<times> log" where
  "enter_api_key stdin lg =
     (case stdin of
        None \<Rightarrow> (Inl EOFError, lg)
      | Some api_key \<Rightarrow>
          if length api_key \<noteq> 40
          then (Inl SystemExit, lg @ [(CRITICAL, Invalid_API_key_please_check)])
          else (Inr [api_key], lg))"

text \<open>
  Lines 100 to 135. The key file is \<open>Some\<close> of its content when
  \<^verbatim>\<open>os.path.isfile(api_key_file)\<close> holds and \<open>None\<close> otherwise. The result is the pool
  \<^verbatim>\<open>api_key_list\<close> (of which \<^verbatim>\<open>n_api_key\<close> is the length) or the exception that ends
  the run, together with the records logged.
\<close>

definition api_key_setup :: "string option \<Rightarrow> string option \<Rightarrow> (error + string list) \<times> log" where
  "api_key_setup api_key_file stdin =
     (case api_key_file of
        Some content \<Rightarrow>
          (let (api_key_list, lg) = read_api_keys (file_lines content) [] [];
               n_api_key = length api_key_list
           in if n_api_key > 0
              then (Inr api_key_list, lg @ [(INFO, API_keys_found_in_file n_api_key)])
              else enter_api_key stdin (lg @ [(WARNING, No_valid_API_key_found_in_file)]))
      | None \<Rightarrow> enter_api_key stdin [(WARNING, API_key_not_found_in_file)])"

subsection \<open>Credential of the single-key scripts\<close>

text \<open>
  \<^verbatim>\<open>example_ny_ev_proj.py\<close>, lines 79 to 93: the whole file is the key
  (\<^verbatim>\<open>f.read()\<close>, nothing stripped); a key whose length is not 40 is replaced by
  \<^verbatim>\<open>'DEMO_KEY'\<close> after a warning.
\<close>

definition example_api_key :: "string option \<Rightarrow> string option \<Rightarrow> (error + string) \<times> log" where
  "example_api_key api_key_file stdin =
     (let (r, lg) =
            (case api_key_file of
               Some content \<Rightarrow> (Inr content, [(INFO, API_key_found_in_file)])
             | None \<Rightarrow>
                 (case stdin of
                    None \<Rightarrow> (Inl EOFError, [(WARNING, API_key_not_found_in_file)])
                  | Some entered \<Rightarrow> (Inr entered, [(WARNING, API_key_not_found_in_file)])))
      in case r of
           Inl e \<Rightarrow> (Inl e, lg)
         | Inr api_key \<Rightarrow>
             if length api_key \<noteq> 40
             then (Inr ''DEMO_KEY'', lg @ [(WARNING, API_key_is_not_valid_use_demo)])
             else (Inr api_key, lg))"

text \<open>
  \<^verbatim>\<open>ny_ev_proj.py\<close>, lines 12 to 26: the same steps, with \<^verbatim>\<open>print\<close> in place of the
  logger. Line 25 builds a \<^verbatim>\<open>Warning\<close> object and drops it, so the replacement by the
  demo key prints nothing. The second component is what was printed.
\<close>

definition ny_api_key :: "string option \<Rightarrow> string option \<Rightarrow> (error + string) \<times> message list" where
  "ny_api_key api_key_file stdin =
     (let (r, out) =
            (case api_key_file of
               Some content \<Rightarrow> (Inr content, [API_key_found_in_file])
             | None \<Rightarrow>
                 (case stdin of
                    None \<Rightarrow> (Inl EOFError, [API_key_not_found_in_file])
                  | Some entered \<Rightarrow> (Inr entered, [API_key_not_found_in_file])))
      in case r of
           Inl e \<Rightarrow> (Inl e, out)
         | Inr api_key \<Rightarrow>
             if length api_key \<noteq> 40 then (Inr ''DEMO_KEY'', out) else (Inr api_key, out))"

subsection \<open>Dates and the day of the week\<close>

text \<open>
  The date column holds \<^verbatim>\<open>datetime.date\<close> objects after
  \<^verbatim>\<open>.dt.date\<close>, and \<^verbatim>\<open>x.weekday()\<close> is the method of that class. Its definition in
  the standard library is \<^verbatim>\<open>(self.toordinal() + 6) % 7\<close>, where the ordinal counts days
  from 1 for 0001-01-01 in the proleptic Gregorian calendar; the helper functions below
  are those of \<^verbatim>\<open>datetime.py\<close>. A date object always has a year from 1 to 9999, a
  month from 1 to 12 and a day of that month.
\<close>

record date =
  year :: nat
  month :: nat
  day :: nat

definition is_leap :: "nat \<Rightarrow> bool" where
  "is_leap y \<longleftrightarrow> y mod 4 = 0 \<and> (y mod 100 \<noteq> 0 \<or> y mod 400 = 0)"

definition days_before_year :: "nat \<Rightarrow> nat" where
  "days_before_year y = (let y' = y - 1 in y' * 365 + y' div 4 - y' div 100 + y' div 400)"

definition DAYS_IN_MONTH :: "nat list" where
  "DAYS_IN_MONTH = [0, 31, 28, 31, 30, 31, 30, 31, 31, 30, 31, 30, 31]"

definition DAYS_BEFORE_MONTH :: "nat list" where
  "DAYS_BEFORE_MONTH = [0, 0, 31, 59, 90, 120, 151, 181, 212, 243, 273, 304, 334]"

definition days_in_month :: "nat \<Rightarrow> nat \<Rightarrow> nat" where
  "days_in_month y m = (if m = 2 \<and> is_leap y then 29 else DAYS_IN_MONTH ! m)"

definition days_before_month :: "nat \<Rightarrow> nat \<Rightarrow> nat" where
  "days_before_month y m = DAYS_BEFORE_MONTH ! m + (if m > 2 \<and> is_leap y then 1 else 0)"

definition toordinal :: "date \<Rightarrow> nat" where
  "toordinal d = days_before_year (year d) + days_before_month (year d) (month d) + day d"

definition weekday :: "date \<Rightarrow> nat" where
  "weekday d = (toordinal d + 6) mod 7"

definition valid_date :: "date \<Rightarrow> bool" where
  "valid_date d \<longleftrightarrow> 1 \<le> year d \<and> year d \<le> 9999 \<and> 1 \<le> month d \<and> month d \<le> 12
                     \<and> 1 \<le> day d \<and> day d \<le> days_in_month (year d) (month d)"

text \<open>The calendar day after a date, for stating how the indicator advances.\<close>

definition next_day :: "date \<Rightarrow> date" where
  "next_day d =
     (if day d < days_in_month (year d) (month d) then d\<lparr>day := day d + 1\<rparr>
      else if month d < 12 then d\<lparr>month := month d + 1, day := 1\<rparr>
      else \<lparr>year = year d + 1, month = 1, day = 1\<rparr>)"

datatype day_name = Monday | Tuesday | Wednesday | Thursday | Friday | Saturday | Sunday

text \<open>The names of the days in the order the indicator numbers them.\<close>

definition day_names :: "day_name list" where
  "day_names = [Monday, Tuesday, Wednesday, Thursday, Friday, Saturday, Sunday]"

text \<open>A time stamp is a date with the nanoseconds since midnight.\<close>

record timestamp =
  ts_date :: date
  ts_time :: nat

subsection \<open>Data frames\<close>

text \<open>
  A cell is a number (Python's \<^verbatim>\<open>int\<close> and \<^verbatim>\<open>float\<close> alike, as a real: rounding is
  not modelled), a string, a date or a time stamp. A frame has a row count and named
  columns; its index is the range index that both \<^verbatim>\<open>reset_index()\<close> and
  \<^verbatim>\<open>pd.DataFrame(scenario_dict)\<close> produce, so a row label is a row position.
\<close>

datatype cell = Num real | Str string | Day date | Stamp timestamp

record frame =
  nrows :: nat
  columns :: "string \<rightharpoonup> cell list"

text \<open>
  The result of the external model: for each scenario a table with a time index and
  named columns.
\<close>

record table =
  time_index :: "cell list"
  tcolumns :: "string \<rightharpoonup> cell list"

type_synonym model_result = "nat \<rightharpoonup> table"

text \<open>
  The frames are objects shared between \<^verbatim>\<open>county_run\<close> and its caller, so they live
  in a store and are passed by reference.
\<close>

type_synonym ref = nat

text \<open>
  A task is one call \<^verbatim>\<open>executor.submit(county_run, temp_csv, scenario_csv, api_key,
  county_names[i])\<close>, with the arguments it was given.
\<close>

record task =
  task_temp_csv :: ref
  task_scenario_csv :: ref
  task_api_key :: string
  task_county :: string

text \<open>
  What the result loop hands to its collaborators: a call
  \<^verbatim>\<open>loadPlotting(final_result, scenario, fig_name)\<close> and a call
  \<^verbatim>\<open>final_result[scenario].to_csv(filename)\<close>. The names are relative to the figure
  and the output directory.
\<close>

datatype artifact =
    Figure string model_result nat
  | Csv string table

text \<open>
  The world is the store, the log, the tasks submitted to the executor and the
  artifacts handed out, each in the order of the calls.
\<close>

record world =
  heap :: "ref \<rightharpoonup> frame"
  logged :: log
  submitted :: "task list"
  saved :: "artifact list"

type_synonym 'a action = "world \<Rightarrow> (error + 'a) \<times> world"

text \<open>Sequencing: an exception ends the sequence and keeps the world reached.\<close>

definition seq :: "'a action \<Rightarrow> ('a \<Rightarrow> 'b action) \<Rightarrow> 'b action" where
  "seq m f w = (case m w of (Inl e, w') \<Rightarrow> (Inl e, w') | (Inr a, w') \<Rightarrow> f a w')"

definition done_with :: "'a \<Rightarrow> 'a action" where
  "done_with a w = (Inr a, w)"

definition raise :: "error \<Rightarrow> 'a action" where
  "raise e w = (Inl e, w)"

definition logging :: "level \<Rightarrow> message \<Rightarrow> unit action" where
  "logging l m w = (Inr (), w\<lparr>logged := logged w @ [(l, m)]\<rparr>)"

definition deref :: "ref \<Rightarrow> frame action" where
  "deref r w = (case heap w r of None \<Rightarrow> (Inl DanglingReference, w) | Some f \<Rightarrow> (Inr f, w))"

text \<open>\<^verbatim>\<open>df[name]\<close>: the column, or \<^verbatim>\<open>KeyError\<close>.\<close>

definition getitem :: "ref \<Rightarrow> string \<Rightarrow> cell list action" where
  "getitem r name =
     seq (deref r) (\<lambda>f. case columns f name of
                           None \<Rightarrow> raise (KeyError name)
                         | Some col \<Rightarrow> done_with col)"

text \<open>\<^verbatim>\<open>df[name] = values\<close>: replaces the column or adds it, in the frame itself.\<close>

definition setitem :: "ref \<Rightarrow> string \<Rightarrow> cell list \<Rightarrow> unit action" where
  "setitem r name values =
     seq (deref r) (\<lambda>f w. (Inr (), w\<lparr>heap := (heap w)(r \<mapsto> f\<lparr>columns := (columns f)(name \<mapsto> values)\<rparr>)\<rparr>))"

text \<open>\<^verbatim>\<open>df.drop(name, axis=1, inplace=True)\<close>: removes the column, or \<^verbatim>\<open>KeyError\<close>.\<close>

definition drop :: "ref \<Rightarrow> string \<Rightarrow> unit action" where
  "drop r name =
     seq (deref r) (\<lambda>f. case columns f name of
                           None \<Rightarrow> raise (KeyError name)
                         | Some _ \<Rightarrow>
                             (\<lambda>w. (Inr (), w\<lparr>heap := (heap w)(r \<mapsto> f\<lparr>columns := (columns f)(name := None)\<rparr>)\<rparr>)))"

text \<open>
  \<^verbatim>\<open>df.loc[label, name] = value\<close> for a label and a column that exist: one cell is
  overwritten in the frame itself. (The loop below only writes to a cell of a row it
  has just read, so the other cases of \<^verbatim>\<open>.loc\<close> are not reached.)
\<close>

definition loc_set :: "ref \<Rightarrow> nat \<Rightarrow> string \<Rightarrow> cell \<Rightarrow> unit action" where
  "loc_set r label name v =
     seq (deref r) (\<lambda>f. case columns f name of
                           None \<Rightarrow> raise (KeyError name)
                         | Some col \<Rightarrow>
                             (\<lambda>w. (Inr (), w\<lparr>heap := (heap w)(r \<mapsto> f\<lparr>columns := (columns f)(name \<mapsto> col[label := v])\<rparr>)\<rparr>)))"

text \<open>
  \<^verbatim>\<open>df.iterrows()\<close>: the pairs of row label and row, in order. The rows are copies
  taken from the frame when the loop starts (the scenario table mixes strings and
  numbers, so its rows are built as new objects), hence a later write to the frame does
  not change a row already handed out.
\<close>

definition row_at :: "frame \<Rightarrow> nat \<Rightarrow> (string \<rightharpoonup> cell)" where
  "row_at f i name =
     (case columns f name of
        None \<Rightarrow> None
      | Some col \<Rightarrow> if i < length col then Some (col ! i) else None)"

definition iterrows :: "frame \<Rightarrow> (nat \<times> (string \<rightharpoonup> cell)) list" where
  "iterrows f = map (\<lambda>i. (i, row_at f i)) [0..<nrows f]"

text \<open>Running every element of a list through a function that may raise.\<close>

fun for_each :: "('a \<Rightarrow> error + 'b) \<Rightarrow> 'a list \<Rightarrow> error + 'b list" where
  "for_each g [] = Inr []"
| "for_each g (x # xs) =
     (case g x of
        Inl e \<Rightarrow> Inl e
      | Inr y \<Rightarrow> (case for_each g xs of Inl e \<Rightarrow> Inl e | Inr ys \<Rightarrow> Inr (y # ys)))"

definition lift :: "error + 'a \<Rightarrow> 'a action" where
  "lift r w = (r, w)"

subsection \<open>The temperature table\<close>

text \<open>
  \<^verbatim>\<open>pd.to_datetime(column)\<close>: a time stamp stays, a date becomes the time stamp of its
  midnight. Strings and numbers would go through the parser of pandas, which is not
  modelled.
\<close>

definition to_datetime :: "cell list \<Rightarrow> error + timestamp list" where
  "to_datetime col =
     for_each (\<lambda>c. case c of
                      Stamp t \<Rightarrow> Inr t
                    | Day d \<Rightarrow> Inr \<lparr>ts_date = d, ts_time = 0\<rparr>
                    | _ \<Rightarrow> Inl Unsupported) col"

text \<open>
  \<^verbatim>\<open>column.dt.date\<close>: the accessor exists for a column of time stamps only, and gives
  the date of each.
\<close>

definition dt_date :: "cell list \<Rightarrow> error + cell list" where
  "dt_date col =
     for_each (\<lambda>c. case c of Stamp t \<Rightarrow> Inr (Day (ts_date t)) | _ \<Rightarrow> Inl AttributeError) col"

text \<open>
  \<^verbatim>\<open>column.apply(lambda x: x.weekday())\<close>: dates and time stamps have the method, which
  returns the number of the day; strings and numbers do not.
\<close>

definition apply_weekday :: "cell list \<Rightarrow> error + cell list" where
  "apply_weekday col =
     for_each (\<lambda>x. case x of
                      Day d \<Rightarrow> Inr (Num (real (weekday d)))
                    | Stamp t \<Rightarrow> Inr (Num (real (weekday (ts_date t))))
                    | _ \<Rightarrow> Inl AttributeError) col"

text \<open>\<^verbatim>\<open>example_ny_ev_proj_mp.py\<close>, lines 38 to 43.\<close>

definition handle_temperature :: "ref \<Rightarrow> unit action" where
  "handle_temperature temp_csv =
     seq (getitem temp_csv ''date'') (\<lambda>col.
     seq (lift (to_datetime col)) (\<lambda>stamps.
     seq (setitem temp_csv ''date'' (map (\<lambda>t. Day (ts_date t)) stamps)) (\<lambda>_.
     seq (getitem temp_csv ''date'') (\<lambda>dates.
     seq (lift (apply_weekday dates)) (\<lambda>weekdays.
     seq (setitem temp_csv ''weekday'' weekdays) (\<lambda>_.
     seq (getitem temp_csv ''temperature'') (\<lambda>temperature.
     seq (setitem temp_csv ''temp_c'' temperature) (\<lambda>_.
     drop temp_csv ''temperature''))))))))"

text \<open>\<^verbatim>\<open>example_ny_ev_proj.py\<close>, lines 36 to 40: the same without \<^verbatim>\<open>pd.to_datetime\<close>.\<close>

definition example_handle_temperature :: "ref \<Rightarrow> unit action" where
  "example_handle_temperature temp_csv =
     seq (getitem temp_csv ''date'') (\<lambda>col.
     seq (lift (dt_date col)) (\<lambda>days.
     seq (setitem temp_csv ''date'' days) (\<lambda>_.
     seq (getitem temp_csv ''date'') (\<lambda>dates.
     seq (lift (apply_weekday dates)) (\<lambda>weekdays.
     seq (setitem temp_csv ''weekday'' weekdays) (\<lambda>_.
     seq (getitem temp_csv ''temperature'') (\<lambda>temperature.
     seq (setitem temp_csv ''temp_c'' temperature) (\<lambda>_.
     drop temp_csv ''temperature''))))))))"

subsection \<open>The fleet-size correction\<close>

text \<open>
  \<^verbatim>\<open>example_ny_ev_proj_mp.py\<close>, lines 47 to 52: the loop over the rows of the scenario
  table. \<^verbatim>\<open>scaling_factor\<close> is the array of line 46. A row whose fleet size is below
  30000 has the fleet size in the caller's table set to 10000 and its factor set to the
  fleet size read from the row, divided by 10000; two warnings are logged. Comparing a
  cell that is not a number with 30000 is a \<^verbatim>\<open>TypeError\<close>.
\<close>

fun small_fleet_loop ::
  "ref \<Rightarrow> string \<Rightarrow> (nat \<times> (string \<rightharpoonup> cell)) list \<Rightarrow> real list \<Rightarrow> (real list) action" where
  "small_fleet_loop scenario_csv county [] scaling_factor w = (Inr scaling_factor, w)"
| "small_fleet_loop scenario_csv county ((scenario, row) # rest) scaling_factor w =
     (case row ''fleet_size'' of
        None \<Rightarrow> (Inl (KeyError ''fleet_size''), w)
      | Some (Num fleet_size) \<Rightarrow>
          if fleet_size < 30000 then
            (case loc_set scenario_csv scenario ''fleet_size'' (Num 10000) w of
               (Inl e, w') \<Rightarrow> (Inl e, w')
             | (Inr _, w') \<Rightarrow>
                 if scenario < length scaling_factor then
                   small_fleet_loop scenario_csv county rest
                     (scaling_factor[scenario := fleet_size / 10000])
                     (w'\<lparr>logged := logged w' @
                        [(WARNING, Fleet_size_too_small scenario county fleet_size),
                         (WARNING, Set_fleet_size_and_scale (fleet_size / 10000))]\<rparr>)
                 else (Inl IndexError, w'))
          else small_fleet_loop scenario_csv county rest scaling_factor w
      | Some _ \<Rightarrow> (Inl TypeError, w))"

definition power_columns :: "string list" where
  "power_columns = [''home_l1'', ''home_l2'', ''work_l1'', ''work_l2'', ''public_l2'', ''public_l3'']"

text \<open>\<^verbatim>\<open>table[[names]]\<close>: the named columns, or \<^verbatim>\<open>KeyError\<close> for one that is missing.\<close>

definition select_columns :: "table \<Rightarrow> string list \<Rightarrow> error + (string \<times> cell list) list" where
  "select_columns t names =
     for_each (\<lambda>name. case tcolumns t name of
                         None \<Rightarrow> Inl (KeyError name)
                       | Some col \<Rightarrow> Inr (name, col)) names"

text \<open>The selection times a number, cell by cell; only numbers can be multiplied.\<close>

definition times_cell :: "real \<Rightarrow> cell \<Rightarrow> error + cell" where
  "times_cell s c = (case c of Num x \<Rightarrow> Inr (Num (x * s)) | _ \<Rightarrow> Inl TypeError)"

definition times :: "(string \<times> cell list) list \<Rightarrow> real \<Rightarrow> error + (string \<times> cell list) list" where
  "times sel s =
     for_each (\<lambda>(name, col). case for_each (times_cell s) col of
                                 Inl e \<Rightarrow> Inl e
                               | Inr col' \<Rightarrow> Inr (name, col')) sel"

text \<open>\<^verbatim>\<open>table[[names]] = values\<close>: each named column is replaced, in the table itself.\<close>

definition assign_columns :: "table \<Rightarrow> (string \<times> cell list) list \<Rightarrow> table" where
  "assign_columns t sel = fold (\<lambda>(name, col) t'. t'\<lparr>tcolumns := (tcolumns t')(name \<mapsto> col)\<rparr>) sel t"

text \<open>
  Lines 59 to 63: the second loop over the rows of the scenario table. Where the factor
  of a scenario is not 1, the six power columns of that scenario's table are replaced by
  their product with the factor.
\<close>

fun scale_loop ::
  "real list \<Rightarrow> (nat \<times> (string \<rightharpoonup> cell)) list \<Rightarrow> model_result \<Rightarrow> error + model_result" where
  "scale_loop scaling_factor [] final_result = Inr final_result"
| "scale_loop scaling_factor ((scenario, row) # rest) final_result =
     (if scenario < length scaling_factor then
        if scaling_factor ! scenario \<noteq> 1 then
          (case final_result scenario of
             None \<Rightarrow> Inl (KeyError_scenario scenario)
           | Some t \<Rightarrow>
               (case select_columns t power_columns of
                  Inl e \<Rightarrow> Inl e
                | Inr sel \<Rightarrow>
                    (case times sel (scaling_factor ! scenario) of
                       Inl e \<Rightarrow> Inl e
                     | Inr scaled \<Rightarrow>
                         scale_loop scaling_factor rest
                           (final_result(scenario \<mapsto> assign_columns t scaled)))))
        else scale_loop scaling_factor rest final_result
      else Inl IndexError)"

subsection \<open>\<^verbatim>\<open>county_run\<close>\<close>

text \<open>
  The external model \<^verbatim>\<open>temp_run(scenario_csv, temp_csv, api_key, county=None)\<close> is a
  parameter: it reads the two tables as they are when it is called and returns a result
  or raises.
\<close>

type_synonym external_model = "frame \<Rightarrow> frame \<Rightarrow> string \<Rightarrow> string option \<Rightarrow> error + model_result"

text \<open>\<^verbatim>\<open>example_ny_ev_proj_mp.py\<close>, lines 17 to 65.\<close>

definition county_run :: "external_model \<Rightarrow> ref \<Rightarrow> ref \<Rightarrow> string \<Rightarrow> string \<Rightarrow> model_result action" where
  "county_run temp_run temp_csv scenario_csv api_key county =
     seq (handle_temperature temp_csv) (\<lambda>_.
     seq (deref scenario_csv) (\<lambda>f.
     seq (small_fleet_loop scenario_csv county (iterrows f) (replicate (nrows f) 1)) (\<lambda>scaling_factor.
     seq (logging DEBUG (Running_with_API_key api_key)) (\<lambda>_.
     seq (deref scenario_csv) (\<lambda>scenarios.
     seq (deref temp_csv) (\<lambda>temperatures.
     seq (lift (temp_run scenarios temperatures api_key (Some county))) (\<lambda>final_result.
     seq (deref scenario_csv) (\<lambda>f'.
     lift (scale_loop scaling_factor (iterrows f') final_result)))))))))"

text \<open>\<^verbatim>\<open>example_ny_ev_proj.py\<close>, lines 17 to 45.\<close>

definition example_county_run :: "external_model \<Rightarrow> ref \<Rightarrow> ref \<Rightarrow> string \<Rightarrow> model_result action" where
  "example_county_run temp_run temp_csv scenario_csv api_key =
     seq (example_handle_temperature temp_csv) (\<lambda>_.
     seq (deref scenario_csv) (\<lambda>scenarios.
     seq (deref temp_csv) (\<lambda>temperatures.
     lift (temp_run scenarios temperatures api_key None))))"

subsection \<open>Dispatch\<close>

text \<open>
  \<^verbatim>\<open>example_ny_ev_proj_mp.py\<close>, lines 212 to 219: one task per pair of tables, in the
  order of the lists; task \<open>i\<close> gets the key at position \<^verbatim>\<open>i % n_api_key\<close> of
  \<^verbatim>\<open>api_key_list\<close> and the county \<^verbatim>\<open>county_names[i]\<close>. The value is the list
  \<^verbatim>\<open>futures\<close>, here the tasks in the order of submission.
\<close>

fun submit_loop ::
  "string list \<Rightarrow> nat \<Rightarrow> string list \<Rightarrow> (nat \<times> ref \<times> ref) list \<Rightarrow> task list \<Rightarrow> (task list) action" where
  "submit_loop api_key_list n_api_key county_names [] futures w = (Inr futures, w)"
| "submit_loop api_key_list n_api_key county_names ((i, temp_csv, scenario_csv) # rest) futures w =
     (if n_api_key = 0 then (Inl ZeroDivisionError, w)
      else
        let api_key_index = i mod n_api_key in
        if api_key_index < length api_key_list then
          let api_key = api_key_list ! api_key_index in
          if i < length county_names then
            let t = \<lparr>task_temp_csv = temp_csv, task_scenario_csv = scenario_csv,
                     task_api_key = api_key, task_county = county_names ! i\<rparr>
            in submit_loop api_key_list n_api_key county_names rest (futures @ [t])
                 (w\<lparr>submitted := submitted w @ [t]\<rparr>)
          else (Inl IndexError, w)
        else (Inl IndexError, w))"

text \<open>
  The tasks run in the worker threads. Each task of the script works on the two frames
  made for its county, so the tasks are run here one after the other, in the order
  \<open>completion\<close> in which they finish: \<open>completion\<close> lists the positions of the
  futures in that order (a number that is not a position of a future stands for no
  task). The value is what \<^verbatim>\<open>as_completed(futures)\<close> yields: for each
  future, in order of completion, what \<^verbatim>\<open>future.result()\<close> returns or raises.
\<close>

fun as_completed :: "external_model \<Rightarrow> task list \<Rightarrow> nat list \<Rightarrow> world \<Rightarrow> (error + model_result) list \<times> world" where
  "as_completed temp_run futures [] w = ([], w)"
| "as_completed temp_run futures (j # js) w =
     (if j < length futures then
        let t = futures ! j;
            (r, w') = county_run temp_run (task_temp_csv t) (task_scenario_csv t)
                        (task_api_key t) (task_county t) w;
            (rs, w'') = as_completed temp_run futures js w'
        in (r # rs, w'')
      else as_completed temp_run futures js w)"

subsection \<open>The result loop\<close>

text \<open>Python's \<^verbatim>\<open>str\<close> of a natural number: its decimal digits.\<close>

fun str_nat :: "nat \<Rightarrow> string" where
  "str_nat n = (if n < 10 then [char_of (48 + n)] else str_nat (n div 10) @ [char_of (48 + n mod 10)])"

declare str_nat.simps [simp del]

definition replace_spaces :: "string \<Rightarrow> string" where
  "replace_spaces s = map (\<lambda>c. if c = CHR '' '' then CHR ''_'' else c) s"

text \<open>
  The names of lines 230 to 238. In \<^verbatim>\<open>example_ny_ev_proj.py\<close> (lines 180 and 184) the
  names have no month part; there the month is \<open>None\<close>.
\<close>

definition artifact_name :: "string \<Rightarrow> nat option \<Rightarrow> nat \<Rightarrow> string \<Rightarrow> string" where
  "artifact_name county m scenario ext =
     replace_spaces (county @ (case m of None \<Rightarrow> [] | Some k \<Rightarrow> ''_month'' @ str_nat k)
                       @ ''_scen'' @ str_nat scenario @ ''_temp_gridLoad.'' @ ext)"

text \<open>Lines 228 to 239: for each scenario of the table, the plot and then the file.\<close>

fun save_scenarios :: "string \<Rightarrow> nat option \<Rightarrow> model_result \<Rightarrow> (nat \<times> (string \<rightharpoonup> cell)) list \<Rightarrow> unit action" where
  "save_scenarios county m final_result [] w = (Inr (), w)"
| "save_scenarios county m final_result ((scenario, row) # rest) w =
     (let w1 = w\<lparr>saved := saved w @ [Figure (artifact_name county m scenario ''png'') final_result scenario]\<rparr>
      in case final_result scenario of
           None \<Rightarrow> (Inl (KeyError_scenario scenario), w1)
         | Some t \<Rightarrow>
             save_scenarios county m final_result rest
               (w1\<lparr>saved := saved w1 @ [Csv (artifact_name county m scenario ''csv'') t]\<rparr>))"

text \<open>
  Lines 221 to 241 (and lines 172 to 187 of \<^verbatim>\<open>example_ny_ev_proj.py\<close>): the loop
  \<^verbatim>\<open>for i, future in enumerate(as_completed(futures))\<close>. The county and the scenario
  table are read at position \<open>i\<close> of the lists, where \<open>i\<close> counts the results in the
  order in which they arrive.
\<close>

fun save_results ::
  "string list \<Rightarrow> ref list \<Rightarrow> nat option \<Rightarrow> (nat \<times> (error + model_result)) list \<Rightarrow> unit action" where
  "save_results county_names scenario_csv_list m [] w = (Inr (), w)"
| "save_results county_names scenario_csv_list m ((i, future) # rest) w =
     (case future of
        Inl e \<Rightarrow> (Inl e, w)
      | Inr final_result \<Rightarrow>
          if i < length county_names then
            let county = county_names ! i in
            if i < length scenario_csv_list then
              (case deref (scenario_csv_list ! i) w of
                 (Inl e, w') \<Rightarrow> (Inl e, w')
               | (Inr scenario_csv, w') \<Rightarrow>
                   (case save_scenarios county m final_result (iterrows scenario_csv) w' of
                      (Inl e, w'') \<Rightarrow> (Inl e, w'')
                    | (Inr _, w'') \<Rightarrow>
                        save_results county_names scenario_csv_list m rest
                          (w''\<lparr>logged := logged w'' @ [(INFO, Finished_running_for_county county)]\<rparr>)))
            else (Inl IndexError, w)
          else (Inl IndexError, w))"

subsection \<open>The run of the multi-key script\<close>

text \<open>
  Lines 209 to 241 for one month \<open>m\<close>: submit, wait for the results in completion
  order, save.
\<close>

definition run_month ::
  "external_model \<Rightarrow> string list \<Rightarrow> nat \<Rightarrow> string list \<Rightarrow> ref list \<Rightarrow> ref list \<Rightarrow> nat \<Rightarrow> nat list \<Rightarrow> unit action" where
  "run_month temp_run api_key_list n_api_key county_names temp_csv_list scenario_csv_list m completion =
     seq (submit_loop api_key_list n_api_key county_names
            (enumerate 0 (zip temp_csv_list scenario_csv_list)) []) (\<lambda>futures.
     seq (\<lambda>w. case as_completed temp_run futures completion w of (rs, w') \<Rightarrow> (Inr rs, w')) (\<lambda>results.
     save_results county_names scenario_csv_list (Some m) (enumerate 0 results)))"


subsection \<open>Example data\<close>

text \<open>
  A small instance for evaluating the functions above: a temperature table of two days
  of December 2018 (a Saturday and a Monday), a scenario table of two scenarios with a
  common fleet size, and an external model that returns, for the scenarios 0 and 1, a
  table of two time steps with the six power columns and one column that names the
  county it was called for.
\<close>

definition december :: "nat \<Rightarrow> timestamp" where
  "december d = \<lparr>ts_date = \<lparr>year = 2018, month = 12, day = d\<rparr>, ts_time = 0\<rparr>"

definition example_temp_csv :: frame where
  "example_temp_csv =
     \<lparr>nrows = 2,
      columns = [''date'' \<mapsto> [Stamp (december 1), Stamp (december 3)],
                 ''temperature'' \<mapsto> [Num (- 2), Num 4]]\<rparr>"

definition example_scenario_csv :: "real \<Rightarrow> frame" where
  "example_scenario_csv fleet_size =
     \<lparr>nrows = 2,
      columns = [''fleet_size'' \<mapsto> [Num fleet_size, Num fleet_size],
                 ''mean_dvmt'' \<mapsto> [Num 35, Num 35],
                 ''pev_type'' \<mapsto> [Str ''PHEV50'', Str ''PHEV50''],
                 ''res_charging'' \<mapsto> [Str ''min_delay'', Str ''max_delay'']]\<rparr>"

definition example_table :: "string \<Rightarrow> table" where
  "example_table county =
     \<lparr>time_index = [Str ''00:00'', Str ''00:15''],
      tcolumns = [''home_l1'' \<mapsto> [Num 100, Num 200],
                  ''home_l2'' \<mapsto> [Num 10, Num 20],
                  ''work_l1'' \<mapsto> [Num 0, Num 0],
                  ''work_l2'' \<mapsto> [Num 30, Num 60],
                  ''public_l2'' \<mapsto> [Num 8, Num 4],
                  ''public_l3'' \<mapsto> [Num 1, Num 3],
                  ''county'' \<mapsto> [Str county, Str county]]\<rparr>"

definition example_result :: "string \<Rightarrow> model_result" where
  "example_result county = (\<lambda>scenario. if scenario < 2 then Some (example_table county) else None)"

definition example_model :: external_model where
  "example_model scenarios temperatures api_key county =
     Inr (example_result (case county of None \<Rightarrow> [] | Some c \<Rightarrow> c))"

definition example_world :: "real \<Rightarrow> world" where
  "example_world fleet_size =
     \<lparr>heap = [0 \<mapsto> example_temp_csv, 1 \<mapsto> example_scenario_csv fleet_size],
      logged = [], submitted = [], saved = []\<rparr>"

text \<open>
  Projections for reading a call's outcome: what it returned, a column of a scenario of
  the result, and a column of a frame of the store.
\<close>

definition returned :: "(error + 'a) \<times> world \<Rightarrow> 'a option" where
  "returned r = (case fst r of Inl e \<Rightarrow> None | Inr a \<Rightarrow> Some a)"

definition column_of :: "model_result option \<Rightarrow> nat \<Rightarrow> string \<Rightarrow> cell list option" where
  "column_of r scenario name =
     (case r of
        None \<Rightarrow> None
      | Some final_result \<Rightarrow>
          (case final_result scenario of None \<Rightarrow> None | Some t \<Rightarrow> tcolumns t name))"

definition column_at :: "world \<Rightarrow> ref \<Rightarrow> string \<Rightarrow> cell list option" where
  "column_at w r name = (case heap w r of None \<Rightarrow> None | Some f \<Rightarrow> columns f name)"

text \<open>Three counties, each with a temperature table and a scenario table of its own.\<close>

definition example_counties :: "string list" where
  "example_counties = [''Albany'', ''Bronx'', ''Erie'']"

definition example_store :: world where
  "example_store =
     \<lparr>heap = [0 \<mapsto> example_temp_csv, 1 \<mapsto> example_scenario_csv 50000,
              2 \<mapsto> example_temp_csv, 3 \<mapsto> example_scenario_csv 50000,
              4 \<mapsto> example_temp_csv, 5 \<mapsto> example_scenario_csv 50000],
      logged = [], submitted = [], saved = []\<rparr>"


section \<open>Properties\<close>

subsection \<open>Auxiliary facts about the credential functions\<close>

lemma read_api_keys_eq:
  "read_api_keys ls acc lg =
     (acc @ filter (\<lambda>k. length k = 40) (map strip ls),
      lg @ map (\<lambda>l. (WARNING, Invalid_API_key (strip l))) (filter (\<lambda>l. length (strip l) \<noteq> 40) ls))"
  by (induction ls arbitrary: acc lg) auto





lemma submit_loop_eq:
  assumes "pool \<noteq> []" "\<forall>x \<in> set items. fst x < length county_names"
  shows "submit_loop pool (length pool) county_names items futures w =
     (Inr (futures @ map (\<lambda>(i, t, s). \<lparr>task_temp_csv = t, task_scenario_csv = s,
              task_api_key = pool ! (i mod length pool), task_county = county_names ! i\<rparr>) items),
      w\<lparr>submitted := submitted w @ map (\<lambda>(i, t, s). \<lparr>task_temp_csv = t, task_scenario_csv = s,
              task_api_key = pool ! (i mod length pool), task_county = county_names ! i\<rparr>) items\<rparr>)"
  using assms
proof (induction items arbitrary: futures w)
  case Nil
  then show ?case by simp
next
  case (Cons x items)
  obtain i t s where x: "x = (i, t, s)" by (cases x)
  from Cons.prems have i: "i < length county_names" by (simp add: x)
  from Cons.prems have m: "i mod length pool < length pool" by simp
  show ?case using Cons.IH[OF Cons.prems(1)] Cons.prems(2) i m Cons.prems(1)
    by (simp add: x Let_def)
qed

lemma map_enumerate_fst:
  "map (\<lambda>(i, x). f i) (enumerate n xs) = map f [n..<n + length xs]"
proof (induction xs arbitrary: n)
  case Nil
  then show ?case by simp
next
  case (Cons x xs)
  have "[n..<n + length (x # xs)] = n # [Suc n..<Suc n + length xs]"
    by (subst upt_rec) simp
  then show ?case using Cons.IH[of "Suc n"] by simp
qed

lemma upt5: "[0..<5] = [0,1,2,3,4::nat]" by (simp add: upt_rec)



subsection \<open>Credential rotation\<close>

text \<open>
  C4: the key of a task depends on the position of the task and on the pool only. With
  a pool of at least one key and a county name for every pair of tables, the submission
  loop submits one task per pair, and the key of task \<open>i\<close> is the key at position
  \<open>i mod n\<close> of the pool, \<open>n\<close> being the size of the pool. The instance with the pool
  of forty times \<open>A\<close> and forty times \<open>B\<close> and five work items, which gives the
  keys A, B, A, B, A, follows the theorem.
\<close>

theorem credential_round_robin:
  assumes "pool \<noteq> []"
    and "min (length temp_csv_list) (length scenario_csv_list) \<le> length county_names"
  shows "\<exists>futures.
           submit_loop pool (length pool) county_names
             (enumerate 0 (zip temp_csv_list scenario_csv_list)) [] w
             = (Inr futures, w\<lparr>submitted := submitted w @ futures\<rparr>)
         \<and> length futures = min (length temp_csv_list) (length scenario_csv_list)
         \<and> map task_api_key futures
             = map (\<lambda>i. pool ! (i mod length pool)) [0..<length futures]"
proof -
  let ?items = "enumerate 0 (zip temp_csv_list scenario_csv_list)"
  let ?mk = "\<lambda>(i, t, s). \<lparr>task_temp_csv = t, task_scenario_csv = s,
              task_api_key = pool ! (i mod length pool), task_county = county_names ! i\<rparr>"
  have rng: "\<forall>x \<in> set ?items. fst x < length county_names"
    using assms(2) by (auto simp: in_set_enumerate_eq)
  have keys: "map task_api_key (map ?mk ?items)
                = map (\<lambda>(i, x). pool ! (i mod length pool)) ?items"
    by (simp add: case_prod_unfold)
  have "map task_api_key (map ?mk ?items)
          = map (\<lambda>i. pool ! (i mod length pool)) [0..<length (map ?mk ?items)]"
    unfolding keys map_enumerate_fst by simp
  then show ?thesis
    using submit_loop_eq[OF assms(1) rng, of "[]" w] by (intro exI[of _ "map ?mk ?items"]) simp
qed


theorem credential_round_robin_witness:
  "\<exists>futures.
     submit_loop [replicate 40 (CHR ''A''), replicate 40 (CHR ''B'')] 2
       [''Albany'', ''Bronx'', ''Erie'', ''Kings'', ''Queens'']
       (enumerate 0 (zip [0, 2, 4, 6, 8] [1, 3, 5, 7, 9])) []
       \<lparr>heap = Map.empty, logged = [], submitted = [], saved = []\<rparr>
       = (Inr futures, \<lparr>heap = Map.empty, logged = [], submitted = futures, saved = []\<rparr>)
     \<and> map task_api_key futures
         = [replicate 40 (CHR ''A''), replicate 40 (CHR ''B''), replicate 40 (CHR ''A''),
            replicate 40 (CHR ''B''), replicate 40 (CHR ''A'')]"
proof -
  let ?pool = "[replicate 40 (CHR ''A''), replicate 40 (CHR ''B'')]"
  let ?names = "[''Albany'', ''Bronx'', ''Erie'', ''Kings'', ''Queens'']"
  let ?w = "\<lparr>heap = Map.empty, logged = [], submitted = [], saved = []\<rparr>"
  have h1: "?pool \<noteq> []" by simp
  have h2: "min (length [0, 2, 4, 6, 8::nat]) (length [1, 3, 5, 7, 9::nat]) \<le> length ?names"
    by simp
  from credential_round_robin [OF h1 h2, of ?w]
  obtain futures where
    a: "submit_loop ?pool (length ?pool) ?names (enumerate 0 (zip [0, 2, 4, 6, 8] [1, 3, 5, 7, 9])) [] ?w
          = (Inr futures, ?w\<lparr>submitted := submitted ?w @ futures\<rparr>)"
    and b: "length futures = min (length [0, 2, 4, 6, 8::nat]) (length [1, 3, 5, 7, 9::nat])"
    and c: "map task_api_key futures = map (\<lambda>i. ?pool ! (i mod length ?pool)) [0..<length futures]"
    by blast
  from b have b': "length futures = 5" by simp
  have len: "length ?pool = 2" by simp
  have upd: "?w\<lparr>submitted := submitted ?w @ futures\<rparr>
               = \<lparr>heap = Map.empty, logged = [], submitted = futures, saved = []\<rparr>" by simp
  have "map task_api_key futures = [?pool ! 0, ?pool ! 1, ?pool ! 0, ?pool ! 1, ?pool ! 0]"
    unfolding c b' upt5 len by simp
  then have d: "map task_api_key futures
         = [replicate 40 (CHR ''A''), replicate 40 (CHR ''B''), replicate 40 (CHR ''A''),
            replicate 40 (CHR ''B''), replicate 40 (CHR ''A'')]" by simp
  show ?thesis using a [unfolded len upd] d by (intro exI[of _ futures] conjI)
qed

subsection \<open>The credential file\<close>





subsection \<open>The single-key scripts: the demo key\<close>

text \<open>
  C7: in the two single-key scripts a key whose length is not 40, read from the file or
  typed in, does not end the run: the key becomes \<open>DEMO_KEY\<close> and the script goes on
  (\<^verbatim>\<open>example_ny_ev_proj.py\<close> logs a warning, \<^verbatim>\<open>ny_ev_proj.py\<close> prints nothing about
  it). The multi-key script with the same typed key ends with \<open>SystemExit\<close>, both
  when there is no key file and when no line of the key file is valid.
\<close>

theorem single_key_demo_fallback:
  "(length k \<noteq> 40 \<longrightarrow>
       example_api_key (Some k) stdin
         = (Inr ''DEMO_KEY'', [(INFO, API_key_found_in_file), (WARNING, API_key_is_not_valid_use_demo)])
     \<and> example_api_key None (Some k)
         = (Inr ''DEMO_KEY'', [(WARNING, API_key_not_found_in_file), (WARNING, API_key_is_not_valid_use_demo)])
     \<and> ny_api_key (Some k) stdin = (Inr ''DEMO_KEY'', [API_key_found_in_file])
     \<and> ny_api_key None (Some k) = (Inr ''DEMO_KEY'', [API_key_not_found_in_file])
     \<and> fst (api_key_setup None (Some k)) = Inl SystemExit)
   \<and> (length k \<noteq> 40 \<and> (\<forall>l \<in> set (file_lines content). length (strip l) \<noteq> 40) \<longrightarrow>
       fst (api_key_setup (Some content) (Some k)) = Inl SystemExit)"
  by (auto simp: example_api_key_def ny_api_key_def api_key_setup_def enter_api_key_def
        read_api_keys_eq filter_empty_conv)

theorem single_key_demo_fallback_witness:
  "length ''tooshort'' \<noteq> 40
   \<and> example_api_key (Some ''tooshort'') None
       = (Inr ''DEMO_KEY'', [(INFO, API_key_found_in_file), (WARNING, API_key_is_not_valid_use_demo)])
   \<and> ny_api_key None (Some ''tooshort'') = (Inr ''DEMO_KEY'', [API_key_not_found_in_file])
   \<and> map (\<lambda>l. length (strip l)) (file_lines (''short'' @ [CHR 0x0A])) = [5]
   \<and> fst (api_key_setup (Some (''short'' @ [CHR 0x0A])) (Some ''tooshort'')) = Inl SystemExit"
proof -
  have s1: "strip (''short'' @ [CHR 0x0A]) = ''short''"
    by (simp add: strip_def isspace_def)
  have h1: "length ''tooshort'' \<noteq> 40" by simp
  have h2: "\<forall>l \<in> set (file_lines (''short'' @ [CHR 0x0A])). length (strip l) \<noteq> 40"
    by (simp add: s1 [simplified])
  from h1 h2 have h3: "length ''tooshort'' \<noteq> 40
      \<and> (\<forall>l \<in> set (file_lines (''short'' @ [CHR 0x0A])). length (strip l) \<noteq> 40)" by blast
  note a = single_key_demo_fallback [of "''tooshort''" None "''short'' @ [CHR 0x0A]",
             THEN conjunct1, rule_format, OF h1]
  note b = single_key_demo_fallback [of "''tooshort''" None "''short'' @ [CHR 0x0A]",
             THEN conjunct2, rule_format, OF h3]
  from a have a1: "example_api_key (Some ''tooshort'') None
       = (Inr ''DEMO_KEY'', [(INFO, API_key_found_in_file), (WARNING, API_key_is_not_valid_use_demo)])"
    and a2: "ny_api_key None (Some ''tooshort'') = (Inr ''DEMO_KEY'', [API_key_not_found_in_file])"
    by blast+
  have h2': "map (\<lambda>l. length (strip l)) (file_lines (''short'' @ [CHR 0x0A])) = [5]"
    by (simp add: s1 [simplified])
  show ?thesis by (intro conjI h1 a1 a2 h2' b)
qed


subsection \<open>The single-key scripts: the file is not stripped\<close>




subsection \<open>Auxiliary facts about frames, the two loops and \<^verbatim>\<open>county_run\<close>\<close>

lemma seq_Inr:
  "seq m f w = (Inr b, w') \<longleftrightarrow> (\<exists>a w1. m w = (Inr a, w1) \<and> f a w1 = (Inr b, w'))"
  by (auto simp: seq_def split: prod.splits sum.splits)

lemma deref_Inr: "deref r w = (Inr f, w') \<longleftrightarrow> w' = w \<and> heap w r = Some f"
  by (auto simp: deref_def split: option.splits)

lemma lift_Inr: "lift x w = (Inr a, w') \<longleftrightarrow> x = Inr a \<and> w' = w"
  by (auto simp: lift_def)

lemma logging_Inr: "logging l m w = (Inr u, w') \<longleftrightarrow> w' = w\<lparr>logged := logged w @ [(l, m)]\<rparr>"
  by (auto simp: logging_def)

lemma getitem_Inr:
  "getitem r name w = (Inr col, w') \<longleftrightarrow> w' = w \<and> (\<exists>f. heap w r = Some f \<and> columns f name = Some col)"
  by (auto simp: getitem_def seq_Inr deref_Inr raise_def done_with_def split: option.splits)

lemma setitem_Inr:
  "setitem r name v w = (Inr u, w') \<longleftrightarrow>
     (\<exists>f. heap w r = Some f \<and> w' = w\<lparr>heap := (heap w)(r \<mapsto> f\<lparr>columns := (columns f)(name \<mapsto> v)\<rparr>)\<rparr>)"
  by (auto simp: setitem_def seq_Inr deref_Inr)

lemma drop_Inr:
  "drop r name w = (Inr u, w') \<longleftrightarrow>
     (\<exists>f col. heap w r = Some f \<and> columns f name = Some col
        \<and> w' = w\<lparr>heap := (heap w)(r \<mapsto> f\<lparr>columns := (columns f)(name := None)\<rparr>)\<rparr>)"
  by (auto simp: drop_def seq_Inr deref_Inr raise_def split: option.splits)

lemma loc_set_Inr:
  "loc_set r label name v w = (Inr u, w') \<longleftrightarrow>
     (\<exists>f col. heap w r = Some f \<and> columns f name = Some col
        \<and> w' = w\<lparr>heap := (heap w)(r \<mapsto> f\<lparr>columns := (columns f)(name \<mapsto> col[label := v])\<rparr>)\<rparr>)"
  by (auto simp: loc_set_def seq_Inr deref_Inr raise_def split: option.splits)

lemma for_each_Inr_length: "for_each g xs = Inr ys \<Longrightarrow> length ys = length xs"
  by (induction xs arbitrary: ys) (auto split: sum.splits)

lemma for_each_Inr_nth:
  "for_each g xs = Inr ys \<Longrightarrow> i < length xs \<Longrightarrow> g (xs ! i) = Inr (ys ! i)"
  by (induction xs arbitrary: ys i) (auto split: sum.splits simp: nth_Cons split: nat.splits)

lemma for_each_map_Inr: "(\<And>x. x \<in> set xs \<Longrightarrow> g x = Inr (h x)) \<Longrightarrow> for_each g xs = Inr (map h xs)"
  by (induction xs) auto

lemma apply_weekday_days:
  "apply_weekday (map (\<lambda>t. Day (ts_date t)) stamps)
     = Inr (map (\<lambda>t. Num (real (weekday (ts_date t)))) stamps)"
  unfolding apply_weekday_def by (induction stamps) auto

lemma dt_date_Inr:
  "dt_date col = Inr days \<Longrightarrow> \<exists>stamps. col = map Stamp stamps \<and> days = map (\<lambda>t. Day (ts_date t)) stamps"
  unfolding dt_date_def
proof (induction col arbitrary: days)
  case Nil
  then show ?case by simp
next
  case (Cons c col)
  then show ?case
    by (auto split: sum.splits cell.splits) (metis list.simps(9))
qed

lemma handle_temperature_Inr:
  assumes "handle_temperature tc w = (Inr u, w')"
  shows "\<exists>f col stamps temperature.
           heap w tc = Some f \<and> columns f ''date'' = Some col \<and> to_datetime col = Inr stamps
         \<and> columns f ''temperature'' = Some temperature
         \<and> w' = w\<lparr>heap := (heap w)(tc \<mapsto>
                   f\<lparr>columns := (columns f)
                       (''date'' \<mapsto> map (\<lambda>t. Day (ts_date t)) stamps,
                        ''weekday'' \<mapsto> map (\<lambda>t. Num (real (weekday (ts_date t)))) stamps,
                        ''temp_c'' \<mapsto> temperature,
                        ''temperature'' := None)\<rparr>)\<rparr>"
  using assms
  by (auto simp: handle_temperature_def seq_Inr getitem_Inr setitem_Inr drop_Inr lift_Inr
        apply_weekday_days)

lemma example_handle_temperature_Inr:
  assumes "example_handle_temperature tc w = (Inr u, w')"
  shows "\<exists>f stamps temperature.
           heap w tc = Some f \<and> columns f ''date'' = Some (map Stamp stamps)
         \<and> columns f ''temperature'' = Some temperature
         \<and> w' = w\<lparr>heap := (heap w)(tc \<mapsto>
                   f\<lparr>columns := (columns f)
                       (''date'' \<mapsto> map (\<lambda>t. Day (ts_date t)) stamps,
                        ''weekday'' \<mapsto> map (\<lambda>t. Num (real (weekday (ts_date t)))) stamps,
                        ''temp_c'' \<mapsto> temperature,
                        ''temperature'' := None)\<rparr>)\<rparr>"
  using assms
  by (auto simp: example_handle_temperature_def seq_Inr getitem_Inr setitem_Inr drop_Inr lift_Inr
        apply_weekday_days dest!: dt_date_Inr) blast

lemma small_fleet_loop_factors:
  assumes "small_fleet_loop sc county (map (\<lambda>i. (i, row_at f0 i)) js) sf w = (Inr sf', w')"
    and "distinct js"
  shows "length sf' = length sf
       \<and> (\<forall>i. i \<notin> set js \<longrightarrow> sf' ! i = sf ! i)
       \<and> (\<forall>i \<in> set js. \<exists>x. row_at f0 i ''fleet_size'' = Some (Num x)
              \<and> sf' ! i = (if x < 30000 then x / 10000 else sf ! i))"
  using assms
proof (induction js arbitrary: sf w)
  case Nil
  then show ?case by simp
next
  case (Cons j js)
  from Cons.prems(1) obtain x where x: "row_at f0 j ''fleet_size'' = Some (Num x)"
    by (auto split: option.splits cell.splits)
  from Cons.prems(2) have d: "distinct js" and nj: "j \<notin> set js" by auto
  show ?case
  proof (cases "x < 30000")
    case True
    with Cons.prems(1) x obtain w1 where
      j: "j < length sf" and
      rec: "small_fleet_loop sc county (map (\<lambda>i. (i, row_at f0 i)) js) (sf[j := x / 10000]) w1 = (Inr sf', w')"
      by (auto split: prod.splits sum.splits if_splits)
    note ih = Cons.IH[OF rec d]
    have a: "length sf' = length sf" using ih by simp
    have b: "\<forall>i. i \<notin> set (j # js) \<longrightarrow> sf' ! i = sf ! i"
      using ih by (simp add: nth_list_update)
    have c: "\<forall>i \<in> set (j # js). \<exists>x. row_at f0 i ''fleet_size'' = Some (Num x)
              \<and> sf' ! i = (if x < 30000 then x / 10000 else sf ! i)"
    proof
      fix i assume i: "i \<in> set (j # js)"
      show "\<exists>x. row_at f0 i ''fleet_size'' = Some (Num x)
              \<and> sf' ! i = (if x < 30000 then x / 10000 else sf ! i)"
      proof (cases "i = j")
        case True
        from ih nj have "sf' ! j = sf[j := x / 10000] ! j" by blast
        with j have "sf' ! j = x / 10000" by simp
        with True x \<open>x < 30000\<close> show ?thesis by (intro exI[of _ x]) simp
      next
        case False
        with i have "i \<in> set js" by simp
        with ih obtain x' where "row_at f0 i ''fleet_size'' = Some (Num x')"
          "sf' ! i = (if x' < 30000 then x' / 10000 else sf[j := x / 10000] ! i)" by blast
        with False show ?thesis by (intro exI[of _ x']) simp
      qed
    qed
    from a b c show ?thesis by blast
  next
    case False
    with Cons.prems(1) x have
      rec: "small_fleet_loop sc county (map (\<lambda>i. (i, row_at f0 i)) js) sf w = (Inr sf', w')"
      by simp
    from Cons.IH[OF rec d] nj x False show ?thesis by auto
  qed
qed

text \<open>What the loop leaves of the world: only the fleet-size column of the scenario table can change.\<close>

lemma small_fleet_loop_frame:
  assumes "small_fleet_loop sc county (map (\<lambda>i. (i, row_at f0 i)) js) sf w = (Inr sf', w')"
  shows "(\<forall>r. r \<noteq> sc \<longrightarrow> heap w' r = heap w r)
       \<and> submitted w' = submitted w \<and> saved w' = saved w
       \<and> (heap w sc = None \<longrightarrow> heap w' sc = None)
       \<and> (\<forall>f. heap w sc = Some f \<longrightarrow>
            (\<exists>f'. heap w' sc = Some f' \<and> nrows f' = nrows f
               \<and> (\<forall>n. n \<noteq> ''fleet_size'' \<longrightarrow> columns f' n = columns f n)
               \<and> (columns f ''fleet_size'' = None \<longrightarrow> columns f' ''fleet_size'' = None)
               \<and> (\<forall>col. columns f ''fleet_size'' = Some col \<longrightarrow>
                    (\<exists>col'. columns f' ''fleet_size'' = Some col' \<and> length col' = length col
                       \<and> (\<forall>i < length col. col' ! i =
                            (if i \<in> set js \<and> (\<exists>x. row_at f0 i ''fleet_size'' = Some (Num x) \<and> x < 30000)
                             then Num 10000 else col ! i))))))"
  using assms
proof (induction js arbitrary: sf w)
  case Nil
  then show ?case by simp
next
  case (Cons j js)
  from Cons.prems(1) obtain x where x: "row_at f0 j ''fleet_size'' = Some (Num x)"
    by (auto split: option.splits cell.splits)
  show ?case
  proof (cases "x < 30000")
    case True
    with Cons.prems(1) x obtain w1 where
      ls: "loc_set sc j ''fleet_size'' (Num 10000) w = (Inr (), w1)" and
      rec: "small_fleet_loop sc county (map (\<lambda>i. (i, row_at f0 i)) js) (sf[j := x / 10000])
              (w1\<lparr>logged := logged w1 @
                        [(WARNING, Fleet_size_too_small j county x),
                         (WARNING, Set_fleet_size_and_scale (x / 10000))]\<rparr>) = (Inr sf', w')"
      by (auto split: prod.splits sum.splits if_splits)
    from ls obtain f col where f: "heap w sc = Some f" "columns f ''fleet_size'' = Some col"
      and w1: "w1 = w\<lparr>heap := (heap w)(sc \<mapsto> f\<lparr>columns := (columns f)(''fleet_size'' \<mapsto> col[j := Num 10000])\<rparr>)\<rparr>"
      by (auto simp: loc_set_Inr)
    from Cons.IH[OF rec] f x True show ?thesis
      unfolding w1 by (auto simp: nth_list_update) (metis nth_list_update_neq)+
  next
    case False
    with Cons.prems(1) x have
      rec: "small_fleet_loop sc county (map (\<lambda>i. (i, row_at f0 i)) js) sf w = (Inr sf', w')"
      by simp
    from Cons.IH[OF rec] x False show ?thesis by auto
  qed
qed

lemma times_cell_Inr: "times_cell s c = Inr c' \<longleftrightarrow> (\<exists>v. c = Num v \<and> c' = Num (v * s))"
  by (auto simp: times_cell_def split: cell.splits)

lemma times_cell_column:
  "for_each (times_cell s) col = Inr col' \<Longrightarrow>
     \<exists>xs. col = map Num xs \<and> col' = map (\<lambda>v. Num (v * s)) xs"
proof (induction col arbitrary: col')
  case Nil
  then show ?case by simp
next
  case (Cons c col)
  from Cons.prems obtain v col'' where c: "c = Num v"
    and r: "for_each (times_cell s) col = Inr col''" and e: "col' = Num (v * s) # col''"
    by (auto simp: times_cell_Inr split: sum.splits)
  from Cons.IH[OF r] obtain xs where "col = map Num xs" "col'' = map (\<lambda>v. Num (v * s)) xs"
    by blast
  with c e show ?case by (intro exI[of _ "v # xs"]) simp
qed

lemma select_columns_Inr:
  "select_columns t names = Inr sel \<Longrightarrow>
     map fst sel = names \<and> (\<forall>p \<in> set sel. tcolumns t (fst p) = Some (snd p))"
  unfolding select_columns_def
  by (induction names arbitrary: sel) (auto split: sum.splits option.splits)

lemma times_Inr:
  "times sel s = Inr scaled \<Longrightarrow>
     map fst scaled = map fst sel
   \<and> (\<forall>i < length sel. \<exists>xs. snd (sel ! i) = map Num xs
          \<and> snd (scaled ! i) = map (\<lambda>v. Num (v * s)) xs)"
  unfolding times_def
proof (induction sel arbitrary: scaled)
  case Nil
  then show ?case by simp
next
  case (Cons p sel)
  obtain name col where p: "p = (name, col)" by (cases p)
  from Cons.prems p obtain col' rest where
    c: "for_each (times_cell s) col = Inr col'"
    and r: "for_each (\<lambda>(name, col). case for_each (times_cell s) col of
                                 Inl e \<Rightarrow> Inl e
                               | Inr col' \<Rightarrow> Inr (name, col')) sel = Inr rest"
    and e: "scaled = (name, col') # rest"
    by (auto split: sum.splits)
  from times_cell_column[OF c] obtain xs where xs: "col = map Num xs" "col' = map (\<lambda>v. Num (v * s)) xs"
    by blast
  from Cons.IH[OF r] p e xs show ?case
    by (auto simp: nth_Cons split: nat.splits)
qed

lemma assign_columns_Nil: "assign_columns t [] = t"
  by (simp add: assign_columns_def)

lemma assign_columns_Cons:
  "assign_columns t ((name, col) # sel) = assign_columns (t\<lparr>tcolumns := (tcolumns t)(name \<mapsto> col)\<rparr>) sel"
  by (simp add: assign_columns_def)

lemma assign_columns_frame:
  "time_index (assign_columns t sel) = time_index t
   \<and> (\<forall>c. c \<notin> fst ` set sel \<longrightarrow> tcolumns (assign_columns t sel) c = tcolumns t c)"
proof (induction sel arbitrary: t)
  case Nil
  then show ?case by (simp add: assign_columns_Nil)
next
  case (Cons p sel)
  obtain name col where p: "p = (name, col)" by (cases p)
  from Cons.IH[of "t\<lparr>tcolumns := (tcolumns t)(name \<mapsto> col)\<rparr>"] show ?case
    unfolding p assign_columns_Cons by auto
qed

lemma assign_columns_set:
  "distinct (map fst sel) \<Longrightarrow> i < length sel \<Longrightarrow>
     tcolumns (assign_columns t sel) (fst (sel ! i)) = Some (snd (sel ! i))"
proof (induction sel arbitrary: t i)
  case Nil
  then show ?case by simp
next
  case (Cons p sel)
  obtain name col where p: "p = (name, col)" by (cases p)
  show ?case
  proof (cases i)
    case 0
    from Cons.prems p have "name \<notin> fst ` set sel" by auto
    with assign_columns_frame[of "t\<lparr>tcolumns := (tcolumns t)(name \<mapsto> col)\<rparr>" sel]
    have "tcolumns (assign_columns (t\<lparr>tcolumns := (tcolumns t)(name \<mapsto> col)\<rparr>) sel) name = Some col"
      by simp
    then show ?thesis unfolding p 0 assign_columns_Cons by simp
  next
    case (Suc k)
    from Cons.prems Suc have "distinct (map fst sel)" "k < length sel" by auto
    from Cons.IH[OF this] show ?thesis unfolding p Suc assign_columns_Cons by simp
  qed
qed

lemma distinct_power_columns: "distinct power_columns"
  by (simp add: power_columns_def)

text \<open>One table, scaled.\<close>

lemma scaled_table:
  assumes "select_columns t power_columns = Inr sel" and "times sel s = Inr scaled"
  shows "time_index (assign_columns t scaled) = time_index t
       \<and> (\<forall>c. c \<notin> set power_columns \<longrightarrow> tcolumns (assign_columns t scaled) c = tcolumns t c)
       \<and> (\<forall>c \<in> set power_columns. \<exists>xs. tcolumns t c = Some (map Num xs)
              \<and> tcolumns (assign_columns t scaled) c = Some (map (\<lambda>v. Num (v * s)) xs))"
proof -
  from select_columns_Inr[OF assms(1)] have
    n: "map fst sel = power_columns" and v: "\<forall>p \<in> set sel. tcolumns t (fst p) = Some (snd p)"
    by blast+
  from times_Inr[OF assms(2)] have
    n': "map fst scaled = map fst sel" and
    v': "\<forall>i < length sel. \<exists>xs. snd (sel ! i) = map Num xs
          \<and> snd (scaled ! i) = map (\<lambda>v. Num (v * s)) xs" by blast+
  from n n' have ns: "map fst scaled = power_columns" by simp
  then have fs: "fst ` set scaled = set power_columns" by (metis set_map)
  have len: "length scaled = length sel" using n' by (metis length_map)
  have len': "length sel = length power_columns" using n by (metis length_map)
  have d: "distinct (map fst scaled)" using ns distinct_power_columns by simp
  have 3: "\<forall>c \<in> set power_columns. \<exists>xs. tcolumns t c = Some (map Num xs)
              \<and> tcolumns (assign_columns t scaled) c = Some (map (\<lambda>v. Num (v * s)) xs)"
  proof
    fix c assume "c \<in> set power_columns"
    then obtain i where i: "i < length power_columns" "power_columns ! i = c"
      by (auto simp: in_set_conv_nth)
    from i n len' have si: "fst (sel ! i) = c" by (metis nth_map)
    from i ns len len' have sci: "fst (scaled ! i) = c" by (metis nth_map)
    from v i len' si have tc: "tcolumns t c = Some (snd (sel ! i))" by (metis nth_mem)
    from v' i len' obtain xs where xs: "snd (sel ! i) = map Num xs"
      "snd (scaled ! i) = map (\<lambda>v. Num (v * s)) xs" by auto
    from assign_columns_set[OF d, of i t] i len len' sci
    have "tcolumns (assign_columns t scaled) c = Some (snd (scaled ! i))" by simp
    with tc xs show "\<exists>xs. tcolumns t c = Some (map Num xs)
              \<and> tcolumns (assign_columns t scaled) c = Some (map (\<lambda>v. Num (v * s)) xs)"
      by (intro exI[of _ xs]) simp
  qed
  from assign_columns_frame[of t scaled] fs 3 show ?thesis by simp
qed

lemma scale_loop_Inr:
  assumes "scale_loop sf (map (\<lambda>i. (i, rw i)) js) res = Inr res'" and "distinct js"
  shows "(\<forall>s. s \<notin> set js \<or> sf ! s = 1 \<longrightarrow> res' s = res s)
       \<and> (\<forall>s \<in> set js. sf ! s \<noteq> 1 \<longrightarrow>
            (\<exists>t t'. res s = Some t \<and> res' s = Some t' \<and> time_index t' = time_index t
               \<and> (\<forall>c. c \<notin> set power_columns \<longrightarrow> tcolumns t' c = tcolumns t c)
               \<and> (\<forall>c \<in> set power_columns. \<exists>xs. tcolumns t c = Some (map Num xs)
                      \<and> tcolumns t' c = Some (map (\<lambda>v. Num (v * (sf ! s))) xs))))"
  using assms
proof (induction js arbitrary: res)
  case Nil
  then show ?case by simp
next
  case (Cons j js)
  from Cons.prems(2) have d: "distinct js" and nj: "j \<notin> set js" by auto
  show ?case
  proof (cases "sf ! j = 1")
    case True
    with Cons.prems(1) have rec: "scale_loop sf (map (\<lambda>i. (i, rw i)) js) res = Inr res'"
      by (auto split: if_splits)
    from Cons.IH[OF rec d] True show ?thesis by auto
  next
    case False
    with Cons.prems(1) obtain t sel scaled where
      t: "res j = Some t" and sel: "select_columns t power_columns = Inr sel"
      and sc: "times sel (sf ! j) = Inr scaled"
      and rec: "scale_loop sf (map (\<lambda>i. (i, rw i)) js) (res(j \<mapsto> assign_columns t scaled)) = Inr res'"
      by (auto split: if_splits option.splits sum.splits)
    note ih = Cons.IH[OF rec d]
    from ih nj have j': "res' j = Some (assign_columns t scaled)" by simp
    have a: "\<forall>s. s \<notin> set (j # js) \<or> sf ! s = 1 \<longrightarrow> res' s = res s"
      using ih False by auto
    have b: "\<forall>s \<in> set (j # js). sf ! s \<noteq> 1 \<longrightarrow>
            (\<exists>t t'. res s = Some t \<and> res' s = Some t' \<and> time_index t' = time_index t
               \<and> (\<forall>c. c \<notin> set power_columns \<longrightarrow> tcolumns t' c = tcolumns t c)
               \<and> (\<forall>c \<in> set power_columns. \<exists>xs. tcolumns t c = Some (map Num xs)
                      \<and> tcolumns t' c = Some (map (\<lambda>v. Num (v * (sf ! s))) xs)))"
    proof (intro ballI impI)
      fix s assume s: "s \<in> set (j # js)" and ne: "sf ! s \<noteq> 1"
      show "\<exists>t t'. res s = Some t \<and> res' s = Some t' \<and> time_index t' = time_index t
               \<and> (\<forall>c. c \<notin> set power_columns \<longrightarrow> tcolumns t' c = tcolumns t c)
               \<and> (\<forall>c \<in> set power_columns. \<exists>xs. tcolumns t c = Some (map Num xs)
                      \<and> tcolumns t' c = Some (map (\<lambda>v. Num (v * (sf ! s))) xs))"
      proof (cases "s = j")
        case True
        with t j' scaled_table[OF sel sc] show ?thesis
          by (intro exI[of _ t] exI[of _ "assign_columns t scaled"]) simp
      next
        case False
        with s have "s \<in> set js" by simp
        with ih ne obtain ta t' where
          r: "(res(j \<mapsto> assign_columns t scaled)) s = Some ta" "res' s = Some t'"
             "time_index t' = time_index ta"
             "\<forall>c. c \<notin> set power_columns \<longrightarrow> tcolumns t' c = tcolumns ta c"
             "\<forall>c \<in> set power_columns. \<exists>xs. tcolumns ta c = Some (map Num xs)
                      \<and> tcolumns t' c = Some (map (\<lambda>v. Num (v * (sf ! s))) xs)"
          by blast
        from r(1) False have "res s = Some ta" by simp
        with r show ?thesis by (intro exI[of _ ta] exI[of _ t']) simp
      qed
    qed
    from a b show ?thesis by blast
  qed
qed

lemma county_run_Inr:
  assumes "county_run temp_run tc sc key county w = (Inr result, w')"
  shows "\<exists>u w1 f sf w2 scen temps raw.
           handle_temperature tc w = (Inr u, w1) \<and> heap w1 sc = Some f
         \<and> small_fleet_loop sc county (iterrows f) (replicate (nrows f) 1) w1 = (Inr sf, w2)
         \<and> heap w2 sc = Some scen \<and> heap w2 tc = Some temps
         \<and> temp_run scen temps key (Some county) = Inr raw
         \<and> scale_loop sf (iterrows scen) raw = Inr result
         \<and> w' = w2\<lparr>logged := logged w2 @ [(DEBUG, Running_with_API_key key)]\<rparr>"
  using assms
  by (auto simp: county_run_def seq_Inr deref_Inr lift_Inr logging_Inr)

lemma row_at_Some:
  "row_at f i name = Some c \<longleftrightarrow> (\<exists>col. columns f name = Some col \<and> i < length col \<and> col ! i = c)"
  by (auto simp: row_at_def split: option.splits)

text \<open>The whole of a successful call, in terms of the world before it.\<close>

lemma county_run_summary:
  assumes run: "county_run temp_run tc sc key county w = (Inr result, w')"
  shows "\<exists>f0 scen temps raw sf u w1 f1 w2.
           heap w sc = Some f0 \<and> heap w' sc = Some scen \<and> heap w' tc = Some temps
         \<and> handle_temperature tc w = (Inr u, w1) \<and> heap w1 sc = Some f1
         \<and> small_fleet_loop sc county (iterrows f1) (replicate (nrows f1) 1) w1 = (Inr sf, w2)
         \<and> temp_run scen temps key (Some county) = Inr raw
         \<and> scale_loop sf (iterrows scen) raw = Inr result
         \<and> nrows scen = nrows f0 \<and> length sf = nrows f0
         \<and> (\<forall>n. n \<noteq> ''fleet_size'' \<longrightarrow> columns scen n = columns f1 n)
         \<and> (\<forall>i < nrows f0. \<exists>x. row_at f0 i ''fleet_size'' = Some (Num x)
                \<and> sf ! i = (if x < 30000 then x / 10000 else 1)
                \<and> row_at scen i ''fleet_size'' = Some (Num (if x < 30000 then 10000 else x)))"
proof -
  from county_run_Inr[OF run] obtain u w1 f1 sf w2 scen temps raw where
    ht: "handle_temperature tc w = (Inr u, w1)" and f1: "heap w1 sc = Some f1"
    and loop: "small_fleet_loop sc county (iterrows f1) (replicate (nrows f1) 1) w1 = (Inr sf, w2)"
    and scen: "heap w2 sc = Some scen" and temps: "heap w2 tc = Some temps"
    and raw: "temp_run scen temps key (Some county) = Inr raw"
    and scale: "scale_loop sf (iterrows scen) raw = Inr result"
    and w': "w' = w2\<lparr>logged := logged w2 @ [(DEBUG, Running_with_API_key key)]\<rparr>"
    by blast
  from handle_temperature_Inr[OF ht] obtain ft col stamps temperature where
    ft: "heap w tc = Some ft" and "columns ft ''date'' = Some col" and "to_datetime col = Inr stamps"
    and "columns ft ''temperature'' = Some temperature"
    and w1: "w1 = w\<lparr>heap := (heap w)(tc \<mapsto>
                   ft\<lparr>columns := (columns ft)
                       (''date'' \<mapsto> map (\<lambda>t. Day (ts_date t)) stamps,
                        ''weekday'' \<mapsto> map (\<lambda>t. Num (real (weekday (ts_date t)))) stamps,
                        ''temp_c'' \<mapsto> temperature,
                        ''temperature'' := None)\<rparr>)\<rparr>"
    by blast
  from f1 ft w1 obtain f0 where f0: "heap w sc = Some f0"
    and n0: "nrows f1 = nrows f0" and c0: "columns f1 ''fleet_size'' = columns f0 ''fleet_size''"
    by (cases "sc = tc") auto
  have rows: "\<And>i. row_at f1 i ''fleet_size'' = row_at f0 i ''fleet_size''"
    by (simp add: row_at_def c0)
  have it: "iterrows f1 = map (\<lambda>i. (i, row_at f1 i)) [0..<nrows f1]"
    by (simp add: iterrows_def)
  note fac = small_fleet_loop_factors[OF loop[unfolded it] distinct_upt]
  note frm = small_fleet_loop_frame[OF loop[unfolded it]]
  from frm f1 scen have n: "nrows scen = nrows f1"
    and oth: "\<forall>n. n \<noteq> ''fleet_size'' \<longrightarrow> columns scen n = columns f1 n"
    and fl: "\<forall>col. columns f1 ''fleet_size'' = Some col \<longrightarrow>
                    (\<exists>col'. columns scen ''fleet_size'' = Some col' \<and> length col' = length col
                       \<and> (\<forall>i < length col. col' ! i =
                            (if i \<in> set [0..<nrows f1] \<and> (\<exists>x. row_at f1 i ''fleet_size'' = Some (Num x) \<and> x < 30000)
                             then Num 10000 else col ! i)))"
    by auto
  have len: "length sf = nrows f0" using fac n0 by simp
  have pt: "\<forall>i < nrows f0. \<exists>x. row_at f0 i ''fleet_size'' = Some (Num x)
                \<and> sf ! i = (if x < 30000 then x / 10000 else 1)
                \<and> row_at scen i ''fleet_size'' = Some (Num (if x < 30000 then 10000 else x))"
  proof (intro allI impI)
    fix i assume i: "i < nrows f0"
    from fac have "\<forall>i \<in> set [0..<nrows f1]. \<exists>x. row_at f1 i ''fleet_size'' = Some (Num x)
              \<and> sf ! i = (if x < 30000 then x / 10000 else replicate (nrows f1) 1 ! i)"
      by blast
    moreover from i n0 have "i \<in> set [0..<nrows f1]" by simp
    ultimately obtain x where x: "row_at f1 i ''fleet_size'' = Some (Num x)"
      and s: "sf ! i = (if x < 30000 then x / 10000 else replicate (nrows f1) 1 ! i)"
      by blast
    from x obtain col where col: "columns f1 ''fleet_size'' = Some col" "i < length col" "col ! i = Num x"
      by (auto simp: row_at_Some)
    with fl obtain col' where col': "columns scen ''fleet_size'' = Some col'" "length col' = length col"
      "col' ! i = (if i \<in> set [0..<nrows f1] \<and> (\<exists>x. row_at f1 i ''fleet_size'' = Some (Num x) \<and> x < 30000)
                             then Num 10000 else col ! i)"
      by blast
    from col' col x i n0 have "row_at scen i ''fleet_size'' = Some (Num (if x < 30000 then 10000 else x))"
      by (auto simp: row_at_Some)
    with x s i n0 rows show "\<exists>x. row_at f0 i ''fleet_size'' = Some (Num x)
                \<and> sf ! i = (if x < 30000 then x / 10000 else 1)
                \<and> row_at scen i ''fleet_size'' = Some (Num (if x < 30000 then 10000 else x))"
      by (intro exI[of _ x]) simp
  qed
  from frm have hp: "\<forall>r. r \<noteq> sc \<longrightarrow> heap w2 r = heap w1 r" by blast
  from scen temps w' have a: "heap w' sc = Some scen" "heap w' tc = Some temps" by simp_all
  from n n0 have nn: "nrows scen = nrows f0" by simp
  show ?thesis
    apply (rule exI[of _ f0], rule exI[of _ scen], rule exI[of _ temps], rule exI[of _ raw],
           rule exI[of _ sf], rule exI[of _ u], rule exI[of _ w1], rule exI[of _ f1],
           rule exI[of _ w2])
    apply (intro conjI f0 a ht f1 loop raw scale nn len oth pt)
    done
qed

lemma upt2: "[0..<2] = [0, 1::nat]" by (simp add: upt_rec)

lemmas action_defs = seq_def deref_def lift_def logging_def getitem_def setitem_def drop_def
  loc_set_def raise_def done_with_def

lemmas example_defs = example_world_def example_temp_csv_def example_scenario_csv_def
  example_model_def example_result_def example_table_def

lemmas county_run_defs = county_run_def handle_temperature_def action_defs
  to_datetime_def apply_weekday_def iterrows_def upt2 row_at_def
  power_columns_def select_columns_def times_def times_cell_def assign_columns_def

lemma county_run_example_returns:
  "\<exists>result w'. county_run example_model 0 1 key county (example_world x) = (Inr result, w')"
  by (cases "x < 30000") (simp_all add: county_run_defs example_defs)


lemma example_county_run_example_returns:
  "\<exists>result w'. example_county_run example_model 0 1 key (example_world x) = (Inr result, w')"
  by (simp add: example_county_run_def example_handle_temperature_def action_defs dt_date_def
      apply_weekday_def example_defs)

lemma county_run_temperature:
  assumes run: "county_run temp_run tc sc key county w = (Inr result, w')"
  shows "\<exists>ft col stamps temperature temps.
           heap w tc = Some ft \<and> columns ft ''date'' = Some col \<and> to_datetime col = Inr stamps
         \<and> columns ft ''temperature'' = Some temperature
         \<and> heap w' tc = Some temps
         \<and> columns temps ''date'' = Some (map (\<lambda>t. Day (ts_date t)) stamps)
         \<and> columns temps ''weekday'' = Some (map (\<lambda>t. Num (real (weekday (ts_date t)))) stamps)
         \<and> columns temps ''temp_c'' = Some temperature
         \<and> columns temps ''temperature'' = None"
proof -
  from county_run_Inr[OF run] obtain u w1 f1 sf w2 scen temps raw where
    ht: "handle_temperature tc w = (Inr u, w1)" and f1: "heap w1 sc = Some f1"
    and loop: "small_fleet_loop sc county (iterrows f1) (replicate (nrows f1) 1) w1 = (Inr sf, w2)"
    and scen: "heap w2 sc = Some scen" and temps: "heap w2 tc = Some temps"
    and w': "w' = w2\<lparr>logged := logged w2 @ [(DEBUG, Running_with_API_key key)]\<rparr>"
    by blast
  from handle_temperature_Inr[OF ht] obtain ft col stamps temperature where
    ft: "heap w tc = Some ft" "columns ft ''date'' = Some col" "to_datetime col = Inr stamps"
        "columns ft ''temperature'' = Some temperature"
    and w1: "w1 = w\<lparr>heap := (heap w)(tc \<mapsto>
                   ft\<lparr>columns := (columns ft)
                       (''date'' \<mapsto> map (\<lambda>t. Day (ts_date t)) stamps,
                        ''weekday'' \<mapsto> map (\<lambda>t. Num (real (weekday (ts_date t)))) stamps,
                        ''temp_c'' \<mapsto> temperature,
                        ''temperature'' := None)\<rparr>)\<rparr>"
    by blast
  let ?g = "ft\<lparr>columns := (columns ft)
                       (''date'' \<mapsto> map (\<lambda>t. Day (ts_date t)) stamps,
                        ''weekday'' \<mapsto> map (\<lambda>t. Num (real (weekday (ts_date t)))) stamps,
                        ''temp_c'' \<mapsto> temperature,
                        ''temperature'' := None)\<rparr>"
  have g: "heap w1 tc = Some ?g" by (simp add: w1)
  have it: "iterrows f1 = map (\<lambda>i. (i, row_at f1 i)) [0..<nrows f1]"
    by (simp add: iterrows_def)
  note frm = small_fleet_loop_frame[OF loop[unfolded it]]
  have same: "\<forall>n. n \<noteq> ''fleet_size'' \<longrightarrow> columns temps n = columns ?g n"
  proof (cases "tc = sc")
    case True
    with g f1 have "f1 = ?g" by simp
    moreover from frm f1 scen have "\<forall>n. n \<noteq> ''fleet_size'' \<longrightarrow> columns scen n = columns f1 n"
      by auto
    moreover from True scen temps have "temps = scen" by simp
    ultimately show ?thesis by simp
  next
    case False
    with frm have "heap w2 tc = heap w1 tc" by blast
    with g temps have "temps = ?g" by simp
    then show ?thesis by simp
  qed
  from same have
    "columns temps ''date'' = Some (map (\<lambda>t. Day (ts_date t)) stamps)"
    "columns temps ''weekday'' = Some (map (\<lambda>t. Num (real (weekday (ts_date t)))) stamps)"
    "columns temps ''temp_c'' = Some temperature"
    "columns temps ''temperature'' = None"
    by simp_all
  moreover from temps w' have "heap w' tc = Some temps" by simp
  ultimately show ?thesis using ft
    by (intro exI[of _ ft] exI[of _ col] exI[of _ stamps] exI[of _ temperature] exI[of _ temps] conjI)
qed

lemma example_county_run_temperature:
  assumes run: "example_county_run temp_run tc sc key w = (Inr result, w')"
  shows "\<exists>ft stamps temperature temps.
           heap w tc = Some ft \<and> columns ft ''date'' = Some (map Stamp stamps)
         \<and> columns ft ''temperature'' = Some temperature
         \<and> heap w' tc = Some temps
         \<and> columns temps ''date'' = Some (map (\<lambda>t. Day (ts_date t)) stamps)
         \<and> columns temps ''weekday'' = Some (map (\<lambda>t. Num (real (weekday (ts_date t)))) stamps)
         \<and> columns temps ''temp_c'' = Some temperature
         \<and> columns temps ''temperature'' = None
         \<and> (\<forall>r. r \<noteq> tc \<longrightarrow> heap w' r = heap w r)"
proof -
  from run obtain u where ht: "example_handle_temperature tc w = (Inr u, w')"
    by (auto simp: example_county_run_def seq_Inr deref_Inr lift_Inr)
  from example_handle_temperature_Inr[OF ht] obtain ft stamps temperature where
    ft: "heap w tc = Some ft" "columns ft ''date'' = Some (map Stamp stamps)"
        "columns ft ''temperature'' = Some temperature"
    and w': "w' = w\<lparr>heap := (heap w)(tc \<mapsto>
                   ft\<lparr>columns := (columns ft)
                       (''date'' \<mapsto> map (\<lambda>t. Day (ts_date t)) stamps,
                        ''weekday'' \<mapsto> map (\<lambda>t. Num (real (weekday (ts_date t)))) stamps,
                        ''temp_c'' \<mapsto> temperature,
                        ''temperature'' := None)\<rparr>)\<rparr>"
    by (elim exE conjE)
  let ?g = "ft\<lparr>columns := (columns ft)
                       (''date'' \<mapsto> map (\<lambda>t. Day (ts_date t)) stamps,
                        ''weekday'' \<mapsto> map (\<lambda>t. Num (real (weekday (ts_date t)))) stamps,
                        ''temp_c'' \<mapsto> temperature,
                        ''temperature'' := None)\<rparr>"
  have g: "heap w' tc = Some ?g" by (simp add: w')
  have o: "\<forall>r. r \<noteq> tc \<longrightarrow> heap w' r = heap w r" by (simp add: w')
  have c: "columns ?g ''date'' = Some (map (\<lambda>t. Day (ts_date t)) stamps)"
    "columns ?g ''weekday'' = Some (map (\<lambda>t. Num (real (weekday (ts_date t)))) stamps)"
    "columns ?g ''temp_c'' = Some temperature"
    "columns ?g ''temperature'' = None"
    by simp_all
  show ?thesis
    by (intro exI[of _ ft] exI[of _ stamps] exI[of _ temperature] exI[of _ ?g] conjI ft g c o)
qed




lemma scale_loop_example_returns:
  "\<exists>final_result. scale_loop [1 / 2, 1] (iterrows (example_scenario_csv 5000)) (example_result ''Albany'')
      = Inr final_result"
  by (simp add: county_run_defs example_defs)


subsection \<open>Auxiliary facts about the calendar\<close>

lemma weekday_less_7: "weekday d < 7"
  by (simp add: weekday_def)

lemma day_names_weekday:
  "weekday d < 5 \<longleftrightarrow> day_names ! weekday d \<notin> {Saturday, Sunday}"
proof -
  have "weekday d = 0 \<or> weekday d = 1 \<or> weekday d = 2 \<or> weekday d = 3 \<or> weekday d = 4
      \<or> weekday d = 5 \<or> weekday d = 6"
    using weekday_less_7[of d] by arith
  then show ?thesis by (elim disjE) (simp_all add: day_names_def)
qed

lemma days_before_month_Suc:
  assumes "1 \<le> m" "m < 12"
  shows "days_before_month y (m + 1) = days_before_month y m + days_in_month y m"
proof -
  from assms have "m = 1 \<or> m = 2 \<or> m = 3 \<or> m = 4 \<or> m = 5 \<or> m = 6 \<or> m = 7 \<or> m = 8
      \<or> m = 9 \<or> m = 10 \<or> m = 11" by arith
  then show ?thesis
    by (elim disjE)
      (simp_all add: days_before_month_def days_in_month_def DAYS_BEFORE_MONTH_def DAYS_IN_MONTH_def)
qed

lemma leap_year_arith:
  fixes A B C k :: nat
  assumes "B \<le> A" and "p400 \<Longrightarrow> p100" and "p100 \<Longrightarrow> p4"
  shows "Suc k * 365 + (A + (if p4 then 1 else 0)) - (B + (if p100 then 1 else 0))
           + (C + (if p400 then 1 else 0))
         = k * 365 + A - B + C + (if p4 \<and> (\<not> p100 \<or> p400) then 366 else 365)"
  using assms by (cases p4; cases p100; cases p400) simp_all

lemma mod_0_trans:
  fixes n :: nat
  assumes "n mod a = 0" and "b dvd a"
  shows "n mod b = 0"
proof -
  from assms(1) have "a dvd n" by (simp add: mod_eq_0_iff_dvd)
  with assms(2) have "b dvd n" by (rule dvd_trans)
  then show ?thesis by (simp add: mod_eq_0_iff_dvd)
qed

lemma days_before_year_Suc:
  assumes "1 \<le> y"
  shows "days_before_year (y + 1) = days_before_year y + (if is_leap y then 366 else 365)"
proof -
  from assms obtain k where k: "y = Suc k" by (cases y) auto
  have a: "Suc k div 4 = k div 4 + (if Suc k mod 4 = 0 then 1 else 0)" by (simp add: div_Suc)
  have b: "Suc k div 100 = k div 100 + (if Suc k mod 100 = 0 then 1 else 0)" by (simp add: div_Suc)
  have c: "Suc k div 400 = k div 400 + (if Suc k mod 400 = 0 then 1 else 0)" by (simp add: div_Suc)
  have d: "Suc k mod 400 = 0 \<Longrightarrow> Suc k mod 100 = 0" by (rule mod_0_trans[of _ 400]) simp_all
  have e: "Suc k mod 100 = 0 \<Longrightarrow> Suc k mod 4 = 0" by (rule mod_0_trans[of _ 100]) simp_all
  have f: "k div 100 \<le> k div 4" by (rule div_le_mono2) simp_all
  have g: "days_before_year (Suc k + 1) = Suc k * 365 + Suc k div 4 - Suc k div 100 + Suc k div 400"
    by (simp add: days_before_year_def)
  have h: "days_before_year (Suc k) = k * 365 + k div 4 - k div 100 + k div 400"
    by (simp add: days_before_year_def)
  have i: "is_leap (Suc k) \<longleftrightarrow> Suc k mod 4 = 0 \<and> (\<not> Suc k mod 100 = 0 \<or> Suc k mod 400 = 0)"
    by (simp add: is_leap_def)
  show ?thesis
    unfolding k g h i a b c by (rule leap_year_arith[OF f d e])
qed

lemma toordinal_next_day:
  assumes "valid_date d"
  shows "toordinal (next_day d) = toordinal d + 1"
proof -
  from assms have v: "1 \<le> year d" "1 \<le> month d" "month d \<le> 12" "1 \<le> day d"
    "day d \<le> days_in_month (year d) (month d)"
    by (simp_all add: valid_date_def)
  show ?thesis
  proof (cases "day d < days_in_month (year d) (month d)")
    case True
    then show ?thesis by (simp add: next_day_def toordinal_def)
  next
    case False
    with v have last: "day d = days_in_month (year d) (month d)" by simp
    show ?thesis
    proof (cases "month d < 12")
      case True
      with False v days_before_month_Suc[of "month d" "year d"] last show ?thesis
        by (simp add: next_day_def toordinal_def)
    next
      case False
      with v have m: "month d = 12" by simp
      have "days_before_month (year d + 1) 1 = 0"
        by (simp add: days_before_month_def DAYS_BEFORE_MONTH_def)
      moreover have "days_before_month (year d) 12 + days_in_month (year d) 12
          = (if is_leap (year d) then 366 else 365)"
        by (simp add: days_before_month_def days_in_month_def DAYS_BEFORE_MONTH_def DAYS_IN_MONTH_def)
      ultimately show ?thesis
        using days_before_year_Suc[OF v(1)] last m
        by (simp add: next_day_def toordinal_def)
    qed
  qed
qed

lemma weekday_next_day:
  assumes "valid_date d"
  shows "weekday (next_day d) = (weekday d + 1) mod 7"
  unfolding weekday_def toordinal_next_day[OF assms] by presburger

lemma weekday_anchor: "weekday \<lparr>year = 2018, month = 12, day = 3\<rparr> = 0"
  by (simp add: weekday_def toordinal_def days_before_year_def days_before_month_def
      DAYS_BEFORE_MONTH_def is_leap_def)

subsection \<open>Auxiliary facts about the example run of three counties\<close>

lemma str_nat_0: "str_nat 0 = ''0''" by code_simp
lemma str_nat_1: "str_nat 1 = ''1''" by code_simp
lemma str_nat_12: "str_nat 12 = ''12''" by code_simp

lemma enum3: "enumerate 0 [a, b, c] = [(0, a), (1, b), (2, c)]" by (simp add: enumerate_eq_zip upt_rec)

lemma as_completed_example:
  "\<exists>w'. as_completed example_model
     [\<lparr>task_temp_csv = 0, task_scenario_csv = 1, task_api_key = k, task_county = ''Albany''\<rparr>,
      \<lparr>task_temp_csv = 2, task_scenario_csv = 3, task_api_key = k, task_county = ''Bronx''\<rparr>,
      \<lparr>task_temp_csv = 4, task_scenario_csv = 5, task_api_key = k, task_county = ''Erie''\<rparr>]
     [1, 0, 2] (example_store\<lparr>submitted := ts\<rparr>)
   = ([Inr (example_result ''Bronx''), Inr (example_result ''Albany''), Inr (example_result ''Erie'')], w')
   \<and> heap w' 1 = Some (example_scenario_csv 50000)
   \<and> heap w' 3 = Some (example_scenario_csv 50000)
   \<and> heap w' 5 = Some (example_scenario_csv 50000)
   \<and> saved w' = [] \<and> submitted w' = ts"
  apply (simp add: county_run_defs example_defs example_store_def)
  apply (simp cong: if_cong)
  done

lemma submit_loop_example:
  "submit_loop [k] 1 example_counties (enumerate 0 (zip [0, 2, 4] [1, 3, 5])) [] example_store
     = (Inr [\<lparr>task_temp_csv = 0, task_scenario_csv = 1, task_api_key = k, task_county = ''Albany''\<rparr>,
             \<lparr>task_temp_csv = 2, task_scenario_csv = 3, task_api_key = k, task_county = ''Bronx''\<rparr>,
             \<lparr>task_temp_csv = 4, task_scenario_csv = 5, task_api_key = k, task_county = ''Erie''\<rparr>],
        example_store\<lparr>submitted :=
            [\<lparr>task_temp_csv = 0, task_scenario_csv = 1, task_api_key = k, task_county = ''Albany''\<rparr>,
             \<lparr>task_temp_csv = 2, task_scenario_csv = 3, task_api_key = k, task_county = ''Bronx''\<rparr>,
             \<lparr>task_temp_csv = 4, task_scenario_csv = 5, task_api_key = k, task_county = ''Erie''\<rparr>]\<rparr>)"
  by (simp add: enum3 example_counties_def Let_def example_store_def)

lemma save_results_example:
  assumes "heap w 1 = Some (example_scenario_csv 50000)"
    and "heap w 3 = Some (example_scenario_csv 50000)"
    and "heap w 5 = Some (example_scenario_csv 50000)"
    and "saved w = []"
  shows "\<exists>w'. save_results example_counties [1, 3, 5] (Some 12)
           (enumerate 0 [Inr (example_result ''Bronx''), Inr (example_result ''Albany''),
                         Inr (example_result ''Erie'')]) w = (Inr (), w')
         \<and> submitted w' = submitted w
         \<and> take 2 (saved w')
             = [Figure ''Albany_month12_scen0_temp_gridLoad.png'' (example_result ''Bronx'') 0,
                Csv ''Albany_month12_scen0_temp_gridLoad.csv'' (example_table ''Bronx'')]"
  using assms
  by (simp add: enum3 example_counties_def deref_def iterrows_def upt2 example_scenario_csv_def
      example_result_def artifact_name_def replace_spaces_def str_nat_0 str_nat_1 str_nat_12 Let_def)


subsection \<open>Small fleets\<close>




subsection \<open>Large fleets\<close>

text \<open>
  C2, as amended: the test of line 48 is \<^verbatim>\<open>fleet_size < 30000\<close>, while 10000 is
  the value substituted. For every scenario whose fleet size is at least 30000, or is
  exactly 10000, the correction is the identity: the factor recorded for the scenario is
  1, the fleet size in the caller's table is the one it was, and the scenario's table
  is the external result unchanged.
\<close>

theorem large_fleet_identity:
  assumes "county_run temp_run temp_csv scenario_csv api_key county w = (Inr final_result, w')"
    and "heap w scenario_csv = Some scenarios"
    and "scenario < nrows scenarios"
    and "row_at scenarios scenario ''fleet_size'' = Some (Num fleet_size)"
    and "30000 \<le> fleet_size \<or> fleet_size = 10000"
  shows "\<exists>u w1 scenarios1 scaling_factor w2 scenarios' temperatures' raw.
           handle_temperature temp_csv w = (Inr u, w1) \<and> heap w1 scenario_csv = Some scenarios1
         \<and> small_fleet_loop scenario_csv county (iterrows scenarios1)
              (replicate (nrows scenarios1) 1) w1 = (Inr scaling_factor, w2)
         \<and> scaling_factor ! scenario = 1
         \<and> heap w' scenario_csv = Some scenarios' \<and> heap w' temp_csv = Some temperatures'
         \<and> row_at scenarios' scenario ''fleet_size'' = Some (Num fleet_size)
         \<and> temp_run scenarios' temperatures' api_key (Some county) = Inr raw
         \<and> final_result scenario = raw scenario"
proof -
  from county_run_summary[OF assms(1)] obtain f0 scen temps raw sf u w1 f1 w2 where
    f0: "heap w scenario_csv = Some f0" and scen: "heap w' scenario_csv = Some scen"
    and temps: "heap w' temp_csv = Some temps"
    and ht: "handle_temperature temp_csv w = (Inr u, w1)" and f1: "heap w1 scenario_csv = Some f1"
    and loop: "small_fleet_loop scenario_csv county (iterrows f1) (replicate (nrows f1) 1) w1 = (Inr sf, w2)"
    and raw: "temp_run scen temps api_key (Some county) = Inr raw"
    and scale: "scale_loop sf (iterrows scen) raw = Inr final_result"
    and n: "nrows scen = nrows f0" and "length sf = nrows f0"
    and "\<forall>n. n \<noteq> ''fleet_size'' \<longrightarrow> columns scen n = columns f1 n"
    and pt: "\<forall>i < nrows f0. \<exists>x. row_at f0 i ''fleet_size'' = Some (Num x)
                \<and> sf ! i = (if x < 30000 then x / 10000 else 1)
                \<and> row_at scen i ''fleet_size'' = Some (Num (if x < 30000 then 10000 else x))"
    by (elim exE conjE)
  from f0 assms(2) have eq: "f0 = scenarios" by simp
  from pt assms(3) eq obtain x where "row_at scenarios scenario ''fleet_size'' = Some (Num x)"
    "sf ! scenario = (if x < 30000 then x / 10000 else 1)"
    "row_at scen scenario ''fleet_size'' = Some (Num (if x < 30000 then 10000 else x))" by blast
  with assms(4,5) have sf: "sf ! scenario = 1"
    and row: "row_at scen scenario ''fleet_size'' = Some (Num fleet_size)" by auto
  have it: "iterrows scen = map (\<lambda>i. (i, row_at scen i)) [0..<nrows scen]"
    by (simp add: iterrows_def)
  note sl = scale_loop_Inr[OF scale[unfolded it] distinct_upt, THEN conjunct1, rule_format, of scenario]
  from sl sf have same: "final_result scenario = raw scenario" by simp
  show ?thesis
    by (intro exI[of _ u] exI[of _ w1] exI[of _ f1] exI[of _ sf] exI[of _ w2] exI[of _ scen]
          exI[of _ temps] exI[of _ raw] conjI ht f1 loop sf scen temps row raw same)
qed


theorem large_fleet_identity_witness:
  "row_at (example_scenario_csv 50000) 0 ''fleet_size'' = Some (Num 50000)
   \<and> (30000::real) \<le> 50000
   \<and> (\<exists>final_result w'.
         county_run example_model 0 1 ''DEMO_KEY'' ''Albany'' (example_world 50000) = (Inr final_result, w')
       \<and> final_result 0 = Some (example_table ''Albany'')
       \<and> column_at w' 1 ''fleet_size'' = Some [Num 50000, Num 50000])"
proof -
  let ?w = "example_world 50000"
  from county_run_example_returns[of "''DEMO_KEY''" "''Albany''" 50000] obtain final_result w' where
    run: "county_run example_model 0 1 ''DEMO_KEY'' ''Albany'' ?w = (Inr final_result, w')" by blast
  have h2: "heap ?w 1 = Some (example_scenario_csv 50000)" by (simp add: example_world_def)
  have h3: "0 < nrows (example_scenario_csv 50000)" by (simp add: example_scenario_csv_def)
  have h4: "row_at (example_scenario_csv 50000) 0 ''fleet_size'' = Some (Num 50000)"
    by (simp add: example_scenario_csv_def row_at_def)
  have h5: "30000 \<le> (50000::real) \<or> (50000::real) = 10000" by simp
  from large_fleet_identity[OF run h2 h3 h4 h5] obtain scenarios' temperatures' raw where
    raw: "example_model scenarios' temperatures' ''DEMO_KEY'' (Some ''Albany'') = Inr raw"
    and same: "final_result 0 = raw 0"
    by blast
  from raw same have r: "final_result 0 = Some (example_table ''Albany'')"
    by (auto simp: example_model_def example_result_def)
  have "column_at (snd (county_run example_model 0 1 ''DEMO_KEY'' ''Albany'' ?w)) 1 ''fleet_size''
          = Some [Num 50000, Num 50000]"
    by (simp add: county_run_defs example_defs column_at_def)
  with run have c: "column_at w' 1 ''fleet_size'' = Some [Num 50000, Num 50000]" by simp
  have e: "\<exists>final_result w'.
         county_run example_model 0 1 ''DEMO_KEY'' ''Albany'' (example_world 50000) = (Inr final_result, w')
       \<and> final_result 0 = Some (example_table ''Albany'')
       \<and> column_at w' 1 ''fleet_size'' = Some [Num 50000, Num 50000]"
    by (intro exI[of _ final_result] exI[of _ w'] conjI run r c)
  have h5': "(30000::real) \<le> 50000" by simp
  show ?thesis by (intro conjI h4 h5' e)
qed


text \<open>
  C2 as stated fails between the two constants: a fleet size of 20000 is at least
  10000, and yet the fleet size in the caller's table becomes 10000, the factor logged
  is 2, and the column \<open>home_l1\<close> of 100 and 200 comes back as 200 and 400.
\<close>

theorem fleet_of_20000_is_corrected:
  "row_at (example_scenario_csv 20000) 0 ''fleet_size'' = Some (Num 20000)
   \<and> (10000::real) \<le> 20000
   \<and> column_at (example_world 20000) 1 ''fleet_size'' = Some [Num 20000, Num 20000]
   \<and> column_at (snd (county_run example_model 0 1 ''DEMO_KEY'' ''Albany'' (example_world 20000)))
         1 ''fleet_size'' = Some [Num 10000, Num 10000]
   \<and> logged (snd (county_run example_model 0 1 ''DEMO_KEY'' ''Albany'' (example_world 20000)))
       = [(WARNING, Fleet_size_too_small 0 ''Albany'' 20000), (WARNING, Set_fleet_size_and_scale 2),
          (WARNING, Fleet_size_too_small 1 ''Albany'' 20000), (WARNING, Set_fleet_size_and_scale 2),
          (DEBUG, Running_with_API_key ''DEMO_KEY'')]
   \<and> column_of (Some (example_result ''Albany'')) 0 ''home_l1'' = Some [Num 100, Num 200]
   \<and> column_of (returned (county_run example_model 0 1 ''DEMO_KEY'' ''Albany'' (example_world 20000)))
         0 ''home_l1'' = Some [Num 200, Num 400]"
proof -
  have 1: "row_at (example_scenario_csv 20000) 0 ''fleet_size'' = Some (Num 20000)"
    by (simp add: example_scenario_csv_def row_at_def)
  have 2: "(10000::real) \<le> 20000" by simp
  have 3: "column_at (example_world 20000) 1 ''fleet_size'' = Some [Num 20000, Num 20000]"
    by (simp add: example_defs column_at_def)
  have 4: "column_at (snd (county_run example_model 0 1 ''DEMO_KEY'' ''Albany'' (example_world 20000)))
         1 ''fleet_size'' = Some [Num 10000, Num 10000]"
    by (simp add: county_run_defs example_defs column_at_def)
  have 5: "logged (snd (county_run example_model 0 1 ''DEMO_KEY'' ''Albany'' (example_world 20000)))
       = [(WARNING, Fleet_size_too_small 0 ''Albany'' 20000), (WARNING, Set_fleet_size_and_scale 2),
          (WARNING, Fleet_size_too_small 1 ''Albany'' 20000), (WARNING, Set_fleet_size_and_scale 2),
          (DEBUG, Running_with_API_key ''DEMO_KEY'')]"
    by (simp add: county_run_defs example_defs)
  have 6: "column_of (Some (example_result ''Albany'')) 0 ''home_l1'' = Some [Num 100, Num 200]"
    by (simp add: example_defs column_of_def)
  have 7: "column_of (returned (county_run example_model 0 1 ''DEMO_KEY'' ''Albany'' (example_world 20000)))
         0 ''home_l1'' = Some [Num 200, Num 400]"
    by (simp add: county_run_defs example_defs returned_def column_of_def)
  show ?thesis by (intro conjI 1 2 3 4 5 6 7)
qed

subsection \<open>The frame of the scaling step\<close>

text \<open>
  C6: the scaling loop changes nothing but the six power columns of the scenarios whose
  factor is not 1. The result has a table for exactly the scenarios of the external
  result; every table keeps its time index and every column that is not one of the six;
  and the table of a scenario whose factor is 1, or which is not a row of the scenario
  table, is the table of the external result. The loop is a function of the factors, the
  rows and the result: it does not touch the store.
\<close>

theorem scaling_changes_only_power_columns:
  assumes "scale_loop scaling_factor (iterrows scenarios) raw = Inr final_result"
  shows "(\<forall>s. (final_result s = None) = (raw s = None))
       \<and> (\<forall>s t t'. raw s = Some t \<and> final_result s = Some t' \<longrightarrow>
             time_index t' = time_index t
           \<and> (\<forall>c. c \<notin> set power_columns \<longrightarrow> tcolumns t' c = tcolumns t c))
       \<and> (\<forall>s. (s < nrows scenarios \<longrightarrow> scaling_factor ! s = 1) \<longrightarrow> final_result s = raw s)"
proof -
  have it: "iterrows scenarios = map (\<lambda>i. (i, row_at scenarios i)) [0..<nrows scenarios]"
    by (simp add: iterrows_def)
  note sl = scale_loop_Inr[OF assms[unfolded it] distinct_upt]
  from sl have same: "\<And>s. s \<notin> set [0..<nrows scenarios] \<or> scaling_factor ! s = 1 \<Longrightarrow> final_result s = raw s"
    by blast
  from sl have chg: "\<And>s. s \<in> set [0..<nrows scenarios] \<Longrightarrow> scaling_factor ! s \<noteq> 1 \<Longrightarrow>
            (\<exists>t t'. raw s = Some t \<and> final_result s = Some t' \<and> time_index t' = time_index t
               \<and> (\<forall>c. c \<notin> set power_columns \<longrightarrow> tcolumns t' c = tcolumns t c))"
    by blast
  have 1: "\<forall>s. (final_result s = None) = (raw s = None)"
  proof
    fix s
    show "(final_result s = None) = (raw s = None)"
    proof (cases "s \<notin> set [0..<nrows scenarios] \<or> scaling_factor ! s = 1")
      case True
      from same[OF True] show ?thesis by simp
    next
      case False
      with chg[of s] show ?thesis by auto
    qed
  qed
  have 2: "\<forall>s t t'. raw s = Some t \<and> final_result s = Some t' \<longrightarrow>
             time_index t' = time_index t
           \<and> (\<forall>c. c \<notin> set power_columns \<longrightarrow> tcolumns t' c = tcolumns t c)"
  proof (intro allI impI)
    fix s t t' assume a: "raw s = Some t \<and> final_result s = Some t'"
    show "time_index t' = time_index t
           \<and> (\<forall>c. c \<notin> set power_columns \<longrightarrow> tcolumns t' c = tcolumns t c)"
    proof (cases "s \<notin> set [0..<nrows scenarios] \<or> scaling_factor ! s = 1")
      case True
      from same[OF True] a show ?thesis by simp
    next
      case False
      with chg[of s] a show ?thesis by auto
    qed
  qed
  have 3: "\<forall>s. (s < nrows scenarios \<longrightarrow> scaling_factor ! s = 1) \<longrightarrow> final_result s = raw s"
    using same by auto
  from 1 2 3 show ?thesis by blast
qed


theorem scaling_changes_only_power_columns_witness:
  "\<exists>final_result t'.
      scale_loop [1 / 2, 1] (iterrows (example_scenario_csv 5000)) (example_result ''Albany'')
        = Inr final_result
    \<and> final_result 0 = Some t'
    \<and> time_index t' = [Str ''00:00'', Str ''00:15'']
    \<and> tcolumns t' ''county'' = Some [Str ''Albany'', Str ''Albany'']
    \<and> final_result 1 = Some (example_table ''Albany'')"
proof -
  from scale_loop_example_returns obtain final_result where
    run: "scale_loop [1 / 2, 1] (iterrows (example_scenario_csv 5000)) (example_result ''Albany'')
            = Inr final_result" by blast
  note th = scaling_changes_only_power_columns[OF run]
  have raw0: "example_result ''Albany'' 0 = Some (example_table ''Albany'')"
    and raw1: "example_result ''Albany'' 1 = Some (example_table ''Albany'')"
    by (simp_all add: example_result_def)
  from th raw0 have "final_result 0 \<noteq> None" by simp
  then obtain t' where t': "final_result 0 = Some t'" by blast
  from th raw0 t' have fr: "time_index t' = time_index (example_table ''Albany'')
      \<and> (\<forall>c. c \<notin> set power_columns \<longrightarrow> tcolumns t' c = tcolumns (example_table ''Albany'') c)"
    by blast
  then have a: "time_index t' = [Str ''00:00'', Str ''00:15'']"
    by (simp add: example_table_def)
  have "''county'' \<notin> set power_columns" by (simp add: power_columns_def)
  with fr have b: "tcolumns t' ''county'' = Some [Str ''Albany'', Str ''Albany'']"
    by (simp add: example_table_def)
  have "(1 < nrows (example_scenario_csv 5000) \<longrightarrow> [1 / 2, 1::real] ! 1 = 1)" by simp
  with th have "final_result 1 = example_result ''Albany'' 1" by blast
  with raw1 have c: "final_result 1 = Some (example_table ''Albany'')" by simp
  show ?thesis by (intro exI[of _ final_result] exI[of _ t'] conjI run t' a b c)
qed

subsection \<open>The weekday indicator\<close>

text \<open>
  C8: after a call that returns, in both scripts, the \<open>weekday\<close> column of the
  caller's temperature table holds, row by row, the number of the day of the week of the
  date in the \<open>date\<close> column of the same row. The number is below 7, it counts from
  Monday as 0 to Sunday as 6 (it is 0 on Monday 3 December 2018 and advances by one,
  modulo 7, with every calendar day), and it is below 5 exactly on the days that are
  neither Saturday nor Sunday. The column holds the number itself, not the comparison
  with 5.
\<close>

theorem weekday_indicator:
  "(county_run temp_run temp_csv scenario_csv api_key county w = (Inr final_result, w') \<longrightarrow>
      (\<exists>temperatures col stamps temperatures'.
          heap w temp_csv = Some temperatures \<and> columns temperatures ''date'' = Some col
        \<and> to_datetime col = Inr stamps \<and> heap w' temp_csv = Some temperatures'
        \<and> columns temperatures' ''date'' = Some (map (\<lambda>t. Day (ts_date t)) stamps)
        \<and> columns temperatures' ''weekday''
            = Some (map (\<lambda>t. Num (real (weekday (ts_date t)))) stamps)))
   \<and> (example_county_run temp_run temp_csv scenario_csv api_key w = (Inr final_result, w') \<longrightarrow>
      (\<exists>temperatures stamps temperatures'.
          heap w temp_csv = Some temperatures
        \<and> columns temperatures ''date'' = Some (map Stamp stamps)
        \<and> heap w' temp_csv = Some temperatures'
        \<and> columns temperatures' ''date'' = Some (map (\<lambda>t. Day (ts_date t)) stamps)
        \<and> columns temperatures' ''weekday''
            = Some (map (\<lambda>t. Num (real (weekday (ts_date t)))) stamps)))
   \<and> weekday d < 7
   \<and> (weekday d < 5 \<longleftrightarrow> day_names ! weekday d \<notin> {Saturday, Sunday})
   \<and> (valid_date d \<longrightarrow> weekday (next_day d) = (weekday d + 1) mod 7)
   \<and> day_names ! weekday \<lparr>year = 2018, month = 12, day = 3\<rparr> = Monday"
proof (intro conjI impI)
  assume run: "county_run temp_run temp_csv scenario_csv api_key county w = (Inr final_result, w')"
  from county_run_temperature[OF run] obtain ft col stamps temperature temps where
    a: "heap w temp_csv = Some ft" "columns ft ''date'' = Some col" "to_datetime col = Inr stamps"
    and "columns ft ''temperature'' = Some temperature"
    and b: "heap w' temp_csv = Some temps"
      "columns temps ''date'' = Some (map (\<lambda>t. Day (ts_date t)) stamps)"
      "columns temps ''weekday'' = Some (map (\<lambda>t. Num (real (weekday (ts_date t)))) stamps)"
    and "columns temps ''temp_c'' = Some temperature"
    and "columns temps ''temperature'' = None"
    by (elim exE conjE)
  show "\<exists>temperatures col stamps temperatures'.
          heap w temp_csv = Some temperatures \<and> columns temperatures ''date'' = Some col
        \<and> to_datetime col = Inr stamps \<and> heap w' temp_csv = Some temperatures'
        \<and> columns temperatures' ''date'' = Some (map (\<lambda>t. Day (ts_date t)) stamps)
        \<and> columns temperatures' ''weekday''
            = Some (map (\<lambda>t. Num (real (weekday (ts_date t)))) stamps)"
    by (intro exI[of _ ft] exI[of _ col] exI[of _ stamps] exI[of _ temps] conjI a b)
next
  assume run: "example_county_run temp_run temp_csv scenario_csv api_key w = (Inr final_result, w')"
  from example_county_run_temperature[OF run] obtain ft stamps temperature temps where
    a: "heap w temp_csv = Some ft" "columns ft ''date'' = Some (map Stamp stamps)"
    and "columns ft ''temperature'' = Some temperature"
    and b: "heap w' temp_csv = Some temps"
      "columns temps ''date'' = Some (map (\<lambda>t. Day (ts_date t)) stamps)"
      "columns temps ''weekday'' = Some (map (\<lambda>t. Num (real (weekday (ts_date t)))) stamps)"
    and "columns temps ''temp_c'' = Some temperature"
    and "columns temps ''temperature'' = None"
    and "\<forall>r. r \<noteq> temp_csv \<longrightarrow> heap w' r = heap w r"
    by (elim exE conjE)
  show "\<exists>temperatures stamps temperatures'.
          heap w temp_csv = Some temperatures
        \<and> columns temperatures ''date'' = Some (map Stamp stamps)
        \<and> heap w' temp_csv = Some temperatures'
        \<and> columns temperatures' ''date'' = Some (map (\<lambda>t. Day (ts_date t)) stamps)
        \<and> columns temperatures' ''weekday''
            = Some (map (\<lambda>t. Num (real (weekday (ts_date t)))) stamps)"
    by (intro exI[of _ ft] exI[of _ stamps] exI[of _ temps] conjI a b)
next
  show "weekday d < 7" by (rule weekday_less_7)
next
  show "weekday d < 5 \<longleftrightarrow> day_names ! weekday d \<notin> {Saturday, Sunday}"
    by (rule day_names_weekday)
next
  assume "valid_date d"
  then show "weekday (next_day d) = (weekday d + 1) mod 7" by (rule weekday_next_day)
next
  show "day_names ! weekday \<lparr>year = 2018, month = 12, day = 3\<rparr> = Monday"
    by (simp add: weekday_anchor day_names_def)
qed

theorem weekday_indicator_witness:
  "valid_date \<lparr>year = 2018, month = 12, day = 3\<rparr>
   \<and> weekday (next_day \<lparr>year = 2018, month = 12, day = 3\<rparr>) = 1
   \<and> (\<exists>final_result w'.
         county_run example_model 0 1 ''DEMO_KEY'' ''Albany'' (example_world 50000) = (Inr final_result, w')
       \<and> column_at w' 0 ''date''
           = Some [Day \<lparr>year = 2018, month = 12, day = 1\<rparr>, Day \<lparr>year = 2018, month = 12, day = 3\<rparr>]
       \<and> column_at w' 0 ''weekday'' = Some [Num 5, Num 0])
   \<and> (\<exists>final_result w'.
         example_county_run example_model 0 1 ''DEMO_KEY'' (example_world 50000) = (Inr final_result, w')
       \<and> column_at w' 0 ''date''
           = Some [Day \<lparr>year = 2018, month = 12, day = 1\<rparr>, Day \<lparr>year = 2018, month = 12, day = 3\<rparr>]
       \<and> column_at w' 0 ''weekday'' = Some [Num 5, Num 0])"
proof -
  let ?d = "\<lparr>year = 2018, month = 12, day = 3\<rparr>"
  let ?w = "example_world 50000"
  from county_run_example_returns[of "''DEMO_KEY''" "''Albany''" 50000] obtain final_result w' where
    run: "county_run example_model 0 1 ''DEMO_KEY'' ''Albany'' ?w = (Inr final_result, w')" by blast
  from example_county_run_example_returns[of "''DEMO_KEY''" 50000] obtain final_result2 w2 where
    run2: "example_county_run example_model 0 1 ''DEMO_KEY'' ?w = (Inr final_result2, w2)" by blast
  note th = weekday_indicator[of example_model 0 1 "''DEMO_KEY''" "''Albany''" ?w final_result w' ?d]
  note th2 = weekday_indicator[of example_model 0 1 "''DEMO_KEY''" "''Albany''" ?w final_result2 w2 ?d]
  have v: "valid_date ?d"
    by (simp add: valid_date_def days_in_month_def DAYS_IN_MONTH_def)
  from th v have "weekday (next_day ?d) = (weekday ?d + 1) mod 7" by blast
  then have n: "weekday (next_day ?d) = 1" by (simp add: weekday_anchor)
  have w1: "weekday \<lparr>year = 2018, month = 12, day = 1\<rparr> = 5"
    by (simp add: weekday_def toordinal_def days_before_year_def days_before_month_def
        DAYS_BEFORE_MONTH_def is_leap_def)
  from w1 have w1': "weekday \<lparr>year = 2018, month = 12, day = Suc 0\<rparr> = 5" by simp
  from th run obtain temperatures col stamps temperatures' where
    a: "heap ?w 0 = Some temperatures" "columns temperatures ''date'' = Some col"
       "to_datetime col = Inr stamps" "heap w' 0 = Some temperatures'"
       "columns temperatures' ''date'' = Some (map (\<lambda>t. Day (ts_date t)) stamps)"
       "columns temperatures' ''weekday'' = Some (map (\<lambda>t. Num (real (weekday (ts_date t)))) stamps)"
    by blast
  from a(1) have "temperatures = example_temp_csv" by (simp add: example_world_def)
  with a(2) have "col = [Stamp (december 1), Stamp (december 3)]"
    by (simp add: example_temp_csv_def)
  with a(3) have s: "stamps = [december 1, december 3]" by (simp add: to_datetime_def)
  from a(4,5) s have c1: "column_at w' 0 ''date''
           = Some [Day \<lparr>year = 2018, month = 12, day = 1\<rparr>, Day \<lparr>year = 2018, month = 12, day = 3\<rparr>]"
    by (simp add: column_at_def december_def)
  from a(4,6) s have c2: "column_at w' 0 ''weekday'' = Some [Num 5, Num 0]"
    by (simp add: column_at_def december_def w1' weekday_anchor)
  have e: "\<exists>final_result w'.
         county_run example_model 0 1 ''DEMO_KEY'' ''Albany'' (example_world 50000) = (Inr final_result, w')
       \<and> column_at w' 0 ''date''
           = Some [Day \<lparr>year = 2018, month = 12, day = 1\<rparr>, Day \<lparr>year = 2018, month = 12, day = 3\<rparr>]
       \<and> column_at w' 0 ''weekday'' = Some [Num 5, Num 0]"
    by (intro exI[of _ final_result] exI[of _ w'] conjI run c1 c2)
  from th2 run2 obtain temperatures2 stamps2 temperatures2' where
    b: "heap ?w 0 = Some temperatures2" "columns temperatures2 ''date'' = Some (map Stamp stamps2)"
       "heap w2 0 = Some temperatures2'"
       "columns temperatures2' ''date'' = Some (map (\<lambda>t. Day (ts_date t)) stamps2)"
       "columns temperatures2' ''weekday'' = Some (map (\<lambda>t. Num (real (weekday (ts_date t)))) stamps2)"
    by blast
  from b(1) have "temperatures2 = example_temp_csv" by (simp add: example_world_def)
  with b(2) have "map Stamp stamps2 = [Stamp (december 1), Stamp (december 3)]"
    by (simp add: example_temp_csv_def)
  then have s2: "stamps2 = [december 1, december 3]"
    by (cases stamps2; cases "tl stamps2") auto
  from b(3,4) s2 have d1: "column_at w2 0 ''date''
           = Some [Day \<lparr>year = 2018, month = 12, day = 1\<rparr>, Day \<lparr>year = 2018, month = 12, day = 3\<rparr>]"
    by (simp add: column_at_def december_def)
  from b(3,5) s2 have d2: "column_at w2 0 ''weekday'' = Some [Num 5, Num 0]"
    by (simp add: column_at_def december_def w1' weekday_anchor)
  have e2: "\<exists>final_result w'.
         example_county_run example_model 0 1 ''DEMO_KEY'' (example_world 50000) = (Inr final_result, w')
       \<and> column_at w' 0 ''date''
           = Some [Day \<lparr>year = 2018, month = 12, day = 1\<rparr>, Day \<lparr>year = 2018, month = 12, day = 3\<rparr>]
       \<and> column_at w' 0 ''weekday'' = Some [Num 5, Num 0]"
    by (intro exI[of _ final_result2] exI[of _ w2] conjI run2 d1 d2)
  show ?thesis by (intro conjI v n e e2)
qed

subsection \<open>Mutation of the caller's frames\<close>

text \<open>
  C10: \<^verbatim>\<open>county_run\<close> works on the caller's frames, not on copies. After a call that
  returns, the frame at the caller's reference to the temperature table has lost the
  column \<open>temperature\<close> and has the columns \<open>weekday\<close> and \<open>temp_c\<close> (the
  latter holding the former temperatures); and in the frame at the caller's reference to
  the scenario table every fleet size that was below the threshold of 30000 is now
  10000. The \<^verbatim>\<open>county_run\<close> of \<^verbatim>\<open>example_ny_ev_proj.py\<close> changes the temperature
  table in the same way and nothing else in the store.
\<close>

theorem caller_frames_mutated:
  "(county_run temp_run temp_csv scenario_csv api_key county w = (Inr final_result, w') \<longrightarrow>
      (\<exists>temperatures temperature temperatures'.
          heap w temp_csv = Some temperatures
        \<and> columns temperatures ''temperature'' = Some temperature
        \<and> heap w' temp_csv = Some temperatures'
        \<and> columns temperatures' ''temperature'' = None
        \<and> columns temperatures' ''weekday'' \<noteq> None
        \<and> columns temperatures' ''temp_c'' = Some temperature)
    \<and> (\<exists>scenarios scenarios'.
          heap w scenario_csv = Some scenarios \<and> heap w' scenario_csv = Some scenarios'
        \<and> (\<forall>i x. i < nrows scenarios \<and> row_at scenarios i ''fleet_size'' = Some (Num x) \<and> x < 30000
               \<longrightarrow> row_at scenarios' i ''fleet_size'' = Some (Num 10000))))
   \<and> (example_county_run temp_run temp_csv scenario_csv api_key w = (Inr final_result, w') \<longrightarrow>
      (\<exists>temperatures temperature temperatures'.
          heap w temp_csv = Some temperatures
        \<and> columns temperatures ''temperature'' = Some temperature
        \<and> heap w' temp_csv = Some temperatures'
        \<and> columns temperatures' ''temperature'' = None
        \<and> columns temperatures' ''weekday'' \<noteq> None
        \<and> columns temperatures' ''temp_c'' = Some temperature)
    \<and> (\<forall>r. r \<noteq> temp_csv \<longrightarrow> heap w' r = heap w r))"
proof (intro conjI impI)
  assume run: "county_run temp_run temp_csv scenario_csv api_key county w = (Inr final_result, w')"
  from county_run_temperature[OF run] obtain ft col stamps temperature temps where
    a: "heap w temp_csv = Some ft" and "columns ft ''date'' = Some col" and "to_datetime col = Inr stamps"
    and b: "columns ft ''temperature'' = Some temperature"
    and c: "heap w' temp_csv = Some temps"
    and "columns temps ''date'' = Some (map (\<lambda>t. Day (ts_date t)) stamps)"
    and d: "columns temps ''weekday'' = Some (map (\<lambda>t. Num (real (weekday (ts_date t)))) stamps)"
    and e: "columns temps ''temp_c'' = Some temperature"
    and f: "columns temps ''temperature'' = None"
    by (elim exE conjE)
  from d have d': "columns temps ''weekday'' \<noteq> None" by simp
  show "\<exists>temperatures temperature temperatures'.
          heap w temp_csv = Some temperatures
        \<and> columns temperatures ''temperature'' = Some temperature
        \<and> heap w' temp_csv = Some temperatures'
        \<and> columns temperatures' ''temperature'' = None
        \<and> columns temperatures' ''weekday'' \<noteq> None
        \<and> columns temperatures' ''temp_c'' = Some temperature"
    by (intro exI[of _ ft] exI[of _ temperature] exI[of _ temps] conjI a b c f d' e)
  from county_run_summary[OF run] obtain f0 scen temps raw sf u w1 f1 w2 where
    f0: "heap w scenario_csv = Some f0" and scen: "heap w' scenario_csv = Some scen"
    and "heap w' temp_csv = Some temps"
    and "handle_temperature temp_csv w = (Inr u, w1)" and "heap w1 scenario_csv = Some f1"
    and "small_fleet_loop scenario_csv county (iterrows f1) (replicate (nrows f1) 1) w1 = (Inr sf, w2)"
    and "temp_run scen temps api_key (Some county) = Inr raw"
    and "scale_loop sf (iterrows scen) raw = Inr final_result"
    and "nrows scen = nrows f0" and "length sf = nrows f0"
    and "\<forall>n. n \<noteq> ''fleet_size'' \<longrightarrow> columns scen n = columns f1 n"
    and pt: "\<forall>i < nrows f0. \<exists>x. row_at f0 i ''fleet_size'' = Some (Num x)
                \<and> sf ! i = (if x < 30000 then x / 10000 else 1)
                \<and> row_at scen i ''fleet_size'' = Some (Num (if x < 30000 then 10000 else x))"
    by (elim exE conjE)
  have g: "\<forall>i x. i < nrows f0 \<and> row_at f0 i ''fleet_size'' = Some (Num x) \<and> x < 30000
               \<longrightarrow> row_at scen i ''fleet_size'' = Some (Num 10000)"
  proof (intro allI impI)
    fix i x assume h: "i < nrows f0 \<and> row_at f0 i ''fleet_size'' = Some (Num x) \<and> x < 30000"
    with pt obtain x' where "row_at f0 i ''fleet_size'' = Some (Num x')"
      "row_at scen i ''fleet_size'' = Some (Num (if x' < 30000 then 10000 else x'))" by blast
    with h show "row_at scen i ''fleet_size'' = Some (Num 10000)" by simp
  qed
  show "\<exists>scenarios scenarios'.
          heap w scenario_csv = Some scenarios \<and> heap w' scenario_csv = Some scenarios'
        \<and> (\<forall>i x. i < nrows scenarios \<and> row_at scenarios i ''fleet_size'' = Some (Num x) \<and> x < 30000
               \<longrightarrow> row_at scenarios' i ''fleet_size'' = Some (Num 10000))"
    by (intro exI[of _ f0] exI[of _ scen] conjI f0 scen g)
next
  assume run: "example_county_run temp_run temp_csv scenario_csv api_key w = (Inr final_result, w')"
  from example_county_run_temperature[OF run] obtain ft stamps temperature temps where
    a: "heap w temp_csv = Some ft" and "columns ft ''date'' = Some (map Stamp stamps)"
    and b: "columns ft ''temperature'' = Some temperature"
    and c: "heap w' temp_csv = Some temps"
    and "columns temps ''date'' = Some (map (\<lambda>t. Day (ts_date t)) stamps)"
    and d: "columns temps ''weekday'' = Some (map (\<lambda>t. Num (real (weekday (ts_date t)))) stamps)"
    and e: "columns temps ''temp_c'' = Some temperature"
    and f: "columns temps ''temperature'' = None"
    and o: "\<forall>r. r \<noteq> temp_csv \<longrightarrow> heap w' r = heap w r"
    by (elim exE conjE)
  from d have d': "columns temps ''weekday'' \<noteq> None" by simp
  show "\<exists>temperatures temperature temperatures'.
          heap w temp_csv = Some temperatures
        \<and> columns temperatures ''temperature'' = Some temperature
        \<and> heap w' temp_csv = Some temperatures'
        \<and> columns temperatures' ''temperature'' = None
        \<and> columns temperatures' ''weekday'' \<noteq> None
        \<and> columns temperatures' ''temp_c'' = Some temperature"
    by (intro exI[of _ ft] exI[of _ temperature] exI[of _ temps] conjI a b c f d' e)
  from o show "\<forall>r. r \<noteq> temp_csv \<longrightarrow> heap w' r = heap w r" .
qed


theorem caller_frames_mutated_witness:
  "column_at (example_world 5000) 0 ''temperature'' = Some [Num (- 2), Num 4]
   \<and> column_at (example_world 5000) 1 ''fleet_size'' = Some [Num 5000, Num 5000]
   \<and> (\<exists>final_result w' scenarios'.
         county_run example_model 0 1 ''DEMO_KEY'' ''Albany'' (example_world 5000) = (Inr final_result, w')
       \<and> column_at w' 0 ''temperature'' = None
       \<and> column_at w' 0 ''temp_c'' = Some [Num (- 2), Num 4]
       \<and> heap w' 1 = Some scenarios'
       \<and> row_at scenarios' 0 ''fleet_size'' = Some (Num 10000)
       \<and> row_at scenarios' 1 ''fleet_size'' = Some (Num 10000))
   \<and> (\<exists>final_result w'.
         example_county_run example_model 0 1 ''DEMO_KEY'' (example_world 5000) = (Inr final_result, w')
       \<and> column_at w' 0 ''temperature'' = None
       \<and> column_at w' 0 ''temp_c'' = Some [Num (- 2), Num 4]
       \<and> column_at w' 1 ''fleet_size'' = Some [Num 5000, Num 5000])"
proof -
  let ?w = "example_world 5000"
  from county_run_example_returns[of "''DEMO_KEY''" "''Albany''" 5000] obtain final_result w' where
    run: "county_run example_model 0 1 ''DEMO_KEY'' ''Albany'' ?w = (Inr final_result, w')" by blast
  from example_county_run_example_returns[of "''DEMO_KEY''" 5000] obtain final_result2 w2 where
    run2: "example_county_run example_model 0 1 ''DEMO_KEY'' ?w = (Inr final_result2, w2)" by blast
  note th = caller_frames_mutated[of example_model 0 1 "''DEMO_KEY''" "''Albany''" ?w final_result w',
      THEN conjunct1, rule_format, OF run]
  note th2 = caller_frames_mutated[of example_model 0 1 "''DEMO_KEY''" "''Albany''" ?w final_result2 w2,
      THEN conjunct2, rule_format, OF run2]
  from th obtain temperatures temperature temperatures' where
    a: "heap ?w 0 = Some temperatures" "columns temperatures ''temperature'' = Some temperature"
       "heap w' 0 = Some temperatures'" "columns temperatures' ''temperature'' = None"
       "columns temperatures' ''temp_c'' = Some temperature"
    by blast
  from th obtain scenarios scenarios' where
    b: "heap ?w 1 = Some scenarios" "heap w' 1 = Some scenarios'"
    and c: "\<forall>i x. i < nrows scenarios \<and> row_at scenarios i ''fleet_size'' = Some (Num x) \<and> x < 30000
               \<longrightarrow> row_at scenarios' i ''fleet_size'' = Some (Num 10000)"
    by blast
  from a(1,2) have t: "temperature = [Num (- 2), Num 4]"
    by (auto simp: example_world_def example_temp_csv_def)
  from b(1) have s: "scenarios = example_scenario_csv 5000" by (simp add: example_world_def)
  have r0: "0 < nrows (example_scenario_csv 5000)
      \<and> row_at (example_scenario_csv 5000) 0 ''fleet_size'' = Some (Num 5000) \<and> (5000::real) < 30000"
    by (simp add: example_scenario_csv_def row_at_def)
  have r1: "1 < nrows (example_scenario_csv 5000)
      \<and> row_at (example_scenario_csv 5000) 1 ''fleet_size'' = Some (Num 5000) \<and> (5000::real) < 30000"
    by (simp add: example_scenario_csv_def row_at_def)
  from c s r0 have f0: "row_at scenarios' 0 ''fleet_size'' = Some (Num 10000)" by blast
  from c s r1 have f1: "row_at scenarios' 1 ''fleet_size'' = Some (Num 10000)" by blast
  from a(3,4) have c1: "column_at w' 0 ''temperature'' = None" by (simp add: column_at_def)
  from a(3,5) t have c2: "column_at w' 0 ''temp_c'' = Some [Num (- 2), Num 4]"
    by (simp add: column_at_def)
  have i1: "column_at (example_world 5000) 0 ''temperature'' = Some [Num (- 2), Num 4]"
    by (simp add: column_at_def example_world_def example_temp_csv_def)
  have i2: "column_at (example_world 5000) 1 ''fleet_size'' = Some [Num 5000, Num 5000]"
    by (simp add: column_at_def example_world_def example_scenario_csv_def)
  have e: "\<exists>final_result w' scenarios'.
         county_run example_model 0 1 ''DEMO_KEY'' ''Albany'' (example_world 5000) = (Inr final_result, w')
       \<and> column_at w' 0 ''temperature'' = None
       \<and> column_at w' 0 ''temp_c'' = Some [Num (- 2), Num 4]
       \<and> heap w' 1 = Some scenarios'
       \<and> row_at scenarios' 0 ''fleet_size'' = Some (Num 10000)
       \<and> row_at scenarios' 1 ''fleet_size'' = Some (Num 10000)"
    by (intro exI[of _ final_result] exI[of _ w'] exI[of _ scenarios'] conjI run c1 c2 b(2) f0 f1)
  from th2 obtain temperatures2 temperature2 temperatures2' where
    a2: "heap ?w 0 = Some temperatures2" "columns temperatures2 ''temperature'' = Some temperature2"
       "heap w2 0 = Some temperatures2'" "columns temperatures2' ''temperature'' = None"
       "columns temperatures2' ''temp_c'' = Some temperature2"
    by blast
  from th2 have o: "\<forall>r. r \<noteq> 0 \<longrightarrow> heap w2 r = heap ?w r" by blast
  from a2(1,2) have t2: "temperature2 = [Num (- 2), Num 4]"
    by (auto simp: example_world_def example_temp_csv_def)
  from a2(3,4) have g1: "column_at w2 0 ''temperature'' = None" by (simp add: column_at_def)
  from a2(3,5) t2 have g2: "column_at w2 0 ''temp_c'' = Some [Num (- 2), Num 4]"
    by (simp add: column_at_def)
  from o have "heap w2 1 = heap ?w 1" by simp
  with i2 have g3: "column_at w2 1 ''fleet_size'' = Some [Num 5000, Num 5000]"
    by (simp add: column_at_def)
  have e2: "\<exists>final_result w'.
         example_county_run example_model 0 1 ''DEMO_KEY'' (example_world 5000) = (Inr final_result, w')
       \<and> column_at w' 0 ''temperature'' = None
       \<and> column_at w' 0 ''temp_c'' = Some [Num (- 2), Num 4]
       \<and> column_at w' 1 ''fleet_size'' = Some [Num 5000, Num 5000]"
    by (intro exI[of _ final_result2] exI[of _ w2] conjI run2 g1 g2 g3)
  show ?thesis by (intro conjI i1 i2 e e2)
qed

subsection \<open>Results are paired with counties by arrival position\<close>

text \<open>
  C3: the result loop reads the county and the scenario table at the position at which a
  result arrives, not at the position at which its task was submitted. In the run of
  three counties below, the task of Bronx (submitted second) finishes first; its
  result, which names Bronx, is plotted and written under the name of Albany. So the
  pairing of each result with its originating county, which C3 asks for under every
  completion order, does not hold in the code.
\<close>

theorem results_paired_by_arrival_position:
  "fst (run_month example_model [''AAAAAAAAAAAAAAAAAAAAAAAAAAAAAAAAAAAAAAAA''] 1 example_counties
          [0, 2, 4] [1, 3, 5] 12 [1, 0, 2] example_store) = Inr ()
   \<and> map task_county
         (submitted (snd (run_month example_model [''AAAAAAAAAAAAAAAAAAAAAAAAAAAAAAAAAAAAAAAA''] 1
            example_counties [0, 2, 4] [1, 3, 5] 12 [1, 0, 2] example_store)))
       = [''Albany'', ''Bronx'', ''Erie'']
   \<and> take 2
         (saved (snd (run_month example_model [''AAAAAAAAAAAAAAAAAAAAAAAAAAAAAAAAAAAAAAAA''] 1
            example_counties [0, 2, 4] [1, 3, 5] 12 [1, 0, 2] example_store)))
       = [Figure ''Albany_month12_scen0_temp_gridLoad.png'' (example_result ''Bronx'') 0,
          Csv ''Albany_month12_scen0_temp_gridLoad.csv'' (example_table ''Bronx'')]"
proof -
  let ?k = "''AAAAAAAAAAAAAAAAAAAAAAAAAAAAAAAAAAAAAAAA''"
  let ?ts = "[\<lparr>task_temp_csv = 0, task_scenario_csv = 1, task_api_key = ?k, task_county = ''Albany''\<rparr>,
             \<lparr>task_temp_csv = 2, task_scenario_csv = 3, task_api_key = ?k, task_county = ''Bronx''\<rparr>,
             \<lparr>task_temp_csv = 4, task_scenario_csv = 5, task_api_key = ?k, task_county = ''Erie''\<rparr>]"
  let ?rs = "[Inr (example_result ''Bronx''), Inr (example_result ''Albany''),
              Inr (example_result ''Erie'')]"
  from as_completed_example[of ?k ?ts] obtain w1 where
    ac: "as_completed example_model ?ts [1, 0, 2] (example_store\<lparr>submitted := ?ts\<rparr>) = (?rs, w1)"
    and h: "heap w1 1 = Some (example_scenario_csv 50000)" "heap w1 3 = Some (example_scenario_csv 50000)"
      "heap w1 5 = Some (example_scenario_csv 50000)" "saved w1 = []"
    and sb: "submitted w1 = ?ts"
    by (elim exE conjE)
  from save_results_example[OF h] obtain w2 where
    sr: "save_results example_counties [1, 3, 5] (Some 12) (enumerate 0 ?rs) w1 = (Inr (), w2)"
    and sb2: "submitted w2 = submitted w1"
    and sv: "take 2 (saved w2)
             = [Figure ''Albany_month12_scen0_temp_gridLoad.png'' (example_result ''Bronx'') 0,
                Csv ''Albany_month12_scen0_temp_gridLoad.csv'' (example_table ''Bronx'')]"
    by (elim exE conjE)
  have run: "run_month example_model [?k] 1 example_counties [0, 2, 4] [1, 3, 5] 12 [1, 0, 2] example_store
          = (Inr (), w2)"
    by (simp only: run_month_def seq_def submit_loop_example prod.case sum.case ac sr)
  show ?thesis unfolding run using sb sb2 sv by simp
qed

end
